theory Spec2Isabelle
  imports Main
begin

section \<open>JavaScript values\<close>

text \<open>
  Strings are byte lists (the UTF-8 text of the JavaScript string). The encoders below
  work on these bytes, as JavaScript's do on the UTF-8 form. \<open>toUpperCase\<close> is used on role
  names only, which are ASCII; the lower-casing of a caller's text is the language's
  Unicode mapping and is taken from the environment.

  A JSON value as \<^verbatim>\<open>JSON.parse\<close> / \<^verbatim>\<open>response.json()\<close> yields it. A number is held by
  its canonical rendering (what \<^verbatim>\<open>String(n)\<close> gives, e.g. \<open>''0.7''\<close>, \<open>''1000''\<close>), so no
  floating point arithmetic is needed. An object is the list of its own properties in
  enumeration order. \<^verbatim>\<open>undefined\<close> is \<open>None\<close> of \<open>json option\<close>.
\<close>

datatype json =
    JNull
  | JBool bool
  | JNum string
  | JStr string
  | JArr "json list"
  | JObj "(string \<times> json) list"

abbreviation NL :: char where "NL \<equiv> CHR 0x0A"
abbreviation BSL :: char where "BSL \<equiv> CHR 0x5C"
abbreviation DQ :: char where "DQ \<equiv> CHR 0x22"

text \<open>What a \<^verbatim>\<open>throw\<close> carries.\<close>

datatype js_error =
    TypeError
  | SyntaxError
  | FetchFailed
  | DbError
  | Error string

text \<open>ToBoolean: the test of \<^verbatim>\<open>if (x)\<close>, \<^verbatim>\<open>!x\<close>, \<^verbatim>\<open>x || y\<close> and \<^verbatim>\<open>x ? a : b\<close>.\<close>

fun truthy :: "json option \<Rightarrow> bool" where
  "truthy None = False"
| "truthy (Some JNull) = False"
| "truthy (Some (JBool b)) = b"
| "truthy (Some (JNum n)) = (\<not> (n = ''0'' \<or> n = ''-0'' \<or> n = ''NaN''))"
| "truthy (Some (JStr s)) = (\<not> (s = []))"
| "truthy (Some (JArr xs)) = True"
| "truthy (Some (JObj kvs)) = True"

text \<open>\<^verbatim>\<open>s\<close> used as a condition, for a string that may be undefined.\<close>

fun truthy_str :: "string option \<Rightarrow> bool" where
  "truthy_str None = False"
| "truthy_str (Some s) = (\<not> (s = []))"

text \<open>\<^verbatim>\<open>a || b\<close>.\<close>

definition js_or :: "json option \<Rightarrow> json option \<Rightarrow> json option" where
  "js_or a b = (if truthy a then a else b)"

definition str_or :: "string option \<Rightarrow> string \<Rightarrow> string" where
  "str_or a b = (case a of None \<Rightarrow> b | Some s \<Rightarrow> if s = [] then b else s)"

text \<open>\<^verbatim>\<open>v === undefined || v === null\<close>.\<close>

fun nullish :: "json option \<Rightarrow> bool" where
  "nullish None = True"
| "nullish (Some JNull) = True"
| "nullish (Some v) = False"

text \<open>
  \<^verbatim>\<open>v.k\<close> for a property name \<open>k\<close> that no built-in prototype defines (here: choices,
  message, content, response, text, usage): a TypeError on undefined and null, the own
  property of an object, undefined on every other value.
\<close>

fun get_prop :: "json option \<Rightarrow> string \<Rightarrow> js_error + json option" where
  "get_prop None k = Inl TypeError"
| "get_prop (Some JNull) k = Inl TypeError"
| "get_prop (Some (JObj kvs)) k = Inr (map_of kvs k)"
| "get_prop (Some v) k = Inr None"

text \<open>\<^verbatim>\<open>v[0]\<close>.\<close>

fun get_index0 :: "json option \<Rightarrow> js_error + json option" where
  "get_index0 None = Inl TypeError"
| "get_index0 (Some JNull) = Inl TypeError"
| "get_index0 (Some (JArr xs)) = Inr (case xs of [] \<Rightarrow> None | x # _ \<Rightarrow> Some x)"
| "get_index0 (Some (JStr s)) = Inr (case s of [] \<Rightarrow> None | c # _ \<Rightarrow> Some (JStr [c]))"
| "get_index0 (Some (JObj kvs)) = Inr (map_of kvs ''0'')"
| "get_index0 (Some v) = Inr None"

text \<open>Optional chaining, \<^verbatim>\<open>v?.k\<close> and \<^verbatim>\<open>v?.[0]\<close>: undefined on undefined and null.\<close>

definition opt_prop :: "json option \<Rightarrow> string \<Rightarrow> js_error + json option" where
  "opt_prop v k = (if nullish v then Inr None else get_prop v k)"

definition opt_index0 :: "json option \<Rightarrow> js_error + json option" where
  "opt_index0 v = (if nullish v then Inr None else get_index0 v)"

text \<open>Sequencing of steps that may throw: the first throw ends the sequence.\<close>

definition andThen :: "js_error + 'a \<Rightarrow> ('a \<Rightarrow> js_error + 'b) \<Rightarrow> js_error + 'b" where
  "andThen m f = (case m of Inl e \<Rightarrow> Inl e | Inr x \<Rightarrow> f x)"

subsection \<open>Strings\<close>

text \<open>\<^verbatim>\<open>Array.prototype.join\<close> on strings.\<close>

fun js_join :: "string \<Rightarrow> string list \<Rightarrow> string" where
  "js_join sep [] = []"
| "js_join sep [x] = x"
| "js_join sep (x # y # ys) = x @ sep @ js_join sep (y # ys)"

definition lower_letters :: string where
  "lower_letters = ''abcdefghijklmnopqrstuvwxyz''"

definition upper_letters :: string where
  "upper_letters = ''ABCDEFGHIJKLMNOPQRSTUVWXYZ''"

definition digits :: string where
  "digits = ''0123456789''"

definition toUpperCase :: "string \<Rightarrow> string" where
  "toUpperCase s =
     map (\<lambda>c. case map_of (zip lower_letters upper_letters) c of None \<Rightarrow> c | Some u \<Rightarrow> u) s"

text \<open>\<^verbatim>\<open>String.prototype.toLowerCase\<close> as it acts on ASCII text.\<close>

definition ascii_toLowerCase :: "string \<Rightarrow> string" where
  "ascii_toLowerCase s =
     map (\<lambda>c. case map_of (zip upper_letters lower_letters) c of None \<Rightarrow> c | Some l \<Rightarrow> l) s"

definition startsWith :: "string \<Rightarrow> string \<Rightarrow> bool" where
  "startsWith s p = (take (length p) s = p)"

definition endsWith :: "string \<Rightarrow> string \<Rightarrow> bool" where
  "endsWith s p = (length p \<le> length s \<and> drop (length s - length p) s = p)"

fun str_includes :: "string \<Rightarrow> string \<Rightarrow> bool" where
  "str_includes [] p = (p = [])"
| "str_includes (c # cs) p = (startsWith (c # cs) p \<or> str_includes cs p)"

text \<open>\<^verbatim>\<open>String.prototype.trim\<close> (as \<^verbatim>\<open>api/generate/route.ts\<close> applies it to its prompt).\<close>

definition is_space :: "char \<Rightarrow> bool" where
  "is_space c = (c \<in> set [CHR '' '', CHR 0x09, CHR 0x0A, CHR 0x0B, CHR 0x0C, CHR 0x0D])"

definition trim :: "string \<Rightarrow> string" where
  "trim s = rev (dropWhile is_space (rev (dropWhile is_space s)))"

text \<open>Decimal rendering of a non-negative integer, as a template literal prints it.\<close>

fun decimal :: "nat \<Rightarrow> string" where
  "decimal n =
     (if n < 10 then [digits ! n] else decimal (n div 10) @ [digits ! (n mod 10)])"

declare decimal.simps [simp del]

subsection \<open>JSON.stringify\<close>

definition hex_digit :: "nat \<Rightarrow> char" where
  "hex_digit n = ''0123456789abcdef'' ! n"

definition quote_char :: "char \<Rightarrow> string" where
  "quote_char c =
     (if c = CHR 0x08 then [BSL, CHR ''b'']
      else if c = CHR 0x09 then [BSL, CHR ''t'']
      else if c = CHR 0x0A then [BSL, CHR ''n'']
      else if c = CHR 0x0C then [BSL, CHR ''f'']
      else if c = CHR 0x0D then [BSL, CHR ''r'']
      else if c = DQ then [BSL, DQ]
      else if c = BSL then [BSL, BSL]
      else if (of_char c :: nat) < 32
        then [BSL, CHR ''u'', CHR ''0'', CHR ''0'',
              hex_digit (of_char c div 16), hex_digit (of_char c mod 16)]
      else [c])"

definition QuoteJSONString :: "string \<Rightarrow> string" where
  "QuoteJSONString s = [DQ] @ concat (map quote_char s) @ [DQ]"

fun JSON_stringify :: "json \<Rightarrow> string" where
  "JSON_stringify JNull = ''null''"
| "JSON_stringify (JBool b) = (if b then ''true'' else ''false'')"
| "JSON_stringify (JNum n) =
     (if n = ''NaN'' \<or> n = ''Infinity'' \<or> n = ''-Infinity'' then ''null'' else n)"
| "JSON_stringify (JStr s) = QuoteJSONString s"
| "JSON_stringify (JArr xs) = ''['' @ js_join '','' (map JSON_stringify xs) @ '']''"
| "JSON_stringify (JObj kvs) =
     ''{'' @ js_join '',''
        (map (\<lambda>kv. QuoteJSONString (fst kv) @ '':'' @ JSON_stringify (snd kv)) kvs) @ ''}''"

section \<open>lib/memory.ts\<close>

datatype role = User | Assistant

fun role_text :: "role \<Rightarrow> string" where
  "role_text User = ''user''"
| "role_text Assistant = ''assistant''"

record ChatMessage =
  role :: role
  content :: string

text \<open>
  An instance of class ChatMemory: its one field, and \<open>oid\<close>, the identity of the object
  (the number of instances constructed before it).
\<close>

record ChatMemory =
  oid :: nat
  sessionId :: string

text \<open>A row of the table behind \<^verbatim>\<open>db.chatMemory\<close>.\<close>

record row =
  row_sessionId :: string
  row_role :: role
  row_content :: string

text \<open>A call of \<^verbatim>\<open>fetch\<close>: the URL and the init object.\<close>

record wire_request =
  url :: string
  http_method :: string
  headers :: "(string \<times> string) list"
  body :: "string option"

text \<open>
  What \<^verbatim>\<open>fetch\<close> resolves to. \<open>body_json\<close> is what \<^verbatim>\<open>response.json()\<close> parses out of the
  body, \<open>None\<close> when the body is not JSON (the call then throws a SyntaxError).
\<close>

record http_response =
  status :: nat
  statusText :: string
  body_text :: string
  body_json :: "json option"

datatype fetch_outcome = Rejects | Resolves http_response

definition ok :: "http_response \<Rightarrow> bool" where
  "ok r = (200 \<le> status r \<and> status r \<le> 299)"

text \<open>
  Everything the handlers read from outside and cannot compute: whether the \<open>k\<close>-th database
  call succeeds, what the \<open>k\<close>-th \<^verbatim>\<open>fetch\<close> resolves to, the clock and the random source
  at the \<open>k\<close>-th construction of a ChatMemory, the process environment, the number
  parsers of the language (their results are floating point numbers, taken as given) and
  its lower-casing of a string (\<^verbatim>\<open>String.prototype.toLowerCase\<close>, a Unicode mapping).
\<close>

record env =
  db_up :: "nat \<Rightarrow> bool"
  net :: "nat \<Rightarrow> wire_request \<Rightarrow> fetch_outcome"
  Date_now :: "nat \<Rightarrow> nat"
  Math_random_36 :: "nat \<Rightarrow> string"
  OPENAI_API_KEY :: "string option"
  parseFloat :: "string \<Rightarrow> json"
  parseInt :: "string \<Rightarrow> json"
  toLowerCase :: "string \<Rightarrow> string"

text \<open>
  The state of the process and of what it talks to: the module variable
  \<^verbatim>\<open>currentMemory\<close>, the table, the number of database calls made, every \<^verbatim>\<open>fetch\<close> made
  (oldest first), and the number of ChatMemory objects constructed.
\<close>

record world =
  currentMemory :: "ChatMemory option"
  chatMemory_table :: "row list"
  db_calls :: nat
  fetch_log :: "wire_request list"
  instances :: nat

subsection \<open>The session store\<close>

text \<open>
  Modelled from the spec: the module \<^verbatim>\<open>@/lib/db\<close> and its schema are not among the
  sources. The spec's Session Store is "durable keyed storage of ordered chat turns,
  scoped by session identifier" behind "a simple append/query/delete-by-key interface";
  a Turn's content is text; "turns for a session are retrieved in strictly non-decreasing
  created_at order, which must equal insertion order". So the table is the list of its
  rows in insertion order, which is ascending \<open>createdAt\<close>. \<open>findMany\<close> takes the query as
  the code writes it: the session of \<open>where\<close>, the direction of
  \<^verbatim>\<open>orderBy: { createdAt: ... }\<close>, and \<open>take\<close>, which keeps the first rows of the ordered
  result. A call fails when the store is unavailable, and \<open>create\<close> also when the content
  is not text.
\<close>

datatype sort_order = Asc | Desc

definition db_create :: "env \<Rightarrow> string \<Rightarrow> role \<Rightarrow> json option \<Rightarrow> world \<Rightarrow> (js_error + unit) \<times> world" where
  "db_create e sid r c w =
     (let w' = w\<lparr>db_calls := Suc (db_calls w)\<rparr> in
      case c of
        Some (JStr s) \<Rightarrow>
          if db_up e (db_calls w)
          then (Inr (),
                w'\<lparr>chatMemory_table := chatMemory_table w @
                      [\<lparr>row_sessionId = sid, row_role = r, row_content = s\<rparr>]\<rparr>)
          else (Inl DbError, w')
      | _ \<Rightarrow> (Inl DbError, w'))"

definition db_findMany :: "env \<Rightarrow> string \<Rightarrow> sort_order \<Rightarrow> nat option \<Rightarrow> world \<Rightarrow>
    (js_error + row list) \<times> world" where
  "db_findMany e sid orderBy take_opt w =
     (let w' = w\<lparr>db_calls := Suc (db_calls w)\<rparr>;
          found = filter (\<lambda>r. row_sessionId r = sid) (chatMemory_table w);
          ordered = (case orderBy of Asc \<Rightarrow> found | Desc \<Rightarrow> rev found) in
      if db_up e (db_calls w)
      then (Inr (case take_opt of None \<Rightarrow> ordered | Some n \<Rightarrow> take n ordered), w')
      else (Inl DbError, w'))"

definition db_deleteMany :: "env \<Rightarrow> string \<Rightarrow> world \<Rightarrow> (js_error + unit) \<times> world" where
  "db_deleteMany e sid w =
     (let w' = w\<lparr>db_calls := Suc (db_calls w)\<rparr> in
      if db_up e (db_calls w)
      then (Inr (),
            w'\<lparr>chatMemory_table := filter (\<lambda>r. \<not> (row_sessionId r = sid)) (chatMemory_table w)\<rparr>)
      else (Inl DbError, w'))"

subsection \<open>class ChatMemory\<close>

definition generateSessionId :: "env \<Rightarrow> nat \<Rightarrow> string" where
  "generateSessionId e k =
     ''session_'' @ decimal (Date_now e k) @ ''_'' @ take 9 (drop 2 (Math_random_36 e k))"

text \<open>The constructor: \<^verbatim>\<open>this.sessionId = sessionId || this.generateSessionId()\<close>.\<close>

definition new_ChatMemory :: "env \<Rightarrow> string option \<Rightarrow> world \<Rightarrow> ChatMemory \<times> world" where
  "new_ChatMemory e sid w =
     (\<lparr>oid = instances w,
       sessionId = (if truthy_str sid then str_or sid [] else generateSessionId e (instances w))\<rparr>,
      w\<lparr>instances := Suc (instances w)\<rparr>)"

text \<open>The \<^verbatim>\<open>catch\<close> logs and returns: the error goes nowhere.\<close>

definition saveMessage :: "env \<Rightarrow> ChatMemory \<Rightarrow> role \<Rightarrow> json option \<Rightarrow> world \<Rightarrow> world" where
  "saveMessage e cm r c w = snd (db_create e (sessionId cm) r c w)"

definition to_message :: "row \<Rightarrow> ChatMessage" where
  "to_message m = \<lparr>role = row_role m, content = row_content m\<rparr>"

definition getMemory :: "env \<Rightarrow> ChatMemory \<Rightarrow> nat \<Rightarrow> world \<Rightarrow> ChatMessage list \<times> world" where
  "getMemory e cm limit w =
     (case db_findMany e (sessionId cm) Asc (Some limit) w of
        (Inr memories, w') \<Rightarrow> (map to_message memories, w')
      | (Inl err, w') \<Rightarrow> ([], w'))"

definition getFullMemory :: "env \<Rightarrow> ChatMemory \<Rightarrow> world \<Rightarrow> ChatMessage list \<times> world" where
  "getFullMemory e cm w =
     (case db_findMany e (sessionId cm) Asc None w of
        (Inr memories, w') \<Rightarrow> (map to_message memories, w')
      | (Inl err, w') \<Rightarrow> ([], w'))"

definition clearMemory :: "env \<Rightarrow> ChatMemory \<Rightarrow> world \<Rightarrow> world" where
  "clearMemory e cm w = snd (db_deleteMany e (sessionId cm) w)"

definition getSessionId :: "ChatMemory \<Rightarrow> string" where
  "getSessionId cm = sessionId cm"

definition formatMemoryForPrompt :: "ChatMessage list \<Rightarrow> string" where
  "formatMemoryForPrompt memory =
     (if length memory = 0 then []
      else let memoryText =
                 js_join [NL] (map (\<lambda>msg. toUpperCase (role_text (role msg)) @ '': '' @ content msg)
                                   memory)
           in ''[Previous Conversation Context]'' @ [NL] @ memoryText @ [NL] @
              ''[End of Context]'' @ [NL, NL])"

text \<open>
  \<^verbatim>\<open>if (!currentMemory || (sessionId && currentMemory.getSessionId() !== sessionId))\<close>
  \<^verbatim>\<open>currentMemory = new ChatMemory(sessionId); return currentMemory\<close>.
\<close>

definition getChatMemory :: "env \<Rightarrow> string option \<Rightarrow> world \<Rightarrow> ChatMemory \<times> world" where
  "getChatMemory e sid w =
     (case currentMemory w of
        None \<Rightarrow>
          (let (cm, w') = new_ChatMemory e sid w in (cm, w'\<lparr>currentMemory := Some cm\<rparr>))
      | Some cur \<Rightarrow>
          if truthy_str sid \<and> \<not> (Some (getSessionId cur) = sid)
          then (let (cm, w') = new_ChatMemory e sid w in (cm, w'\<lparr>currentMemory := Some cm\<rparr>))
          else (cur, w))"

section \<open>app/api/pollinations/text/route.ts\<close>

subsection \<open>The request body\<close>

text \<open>
  The body as \<^verbatim>\<open>page.tsx\<close> sends it: strings, the two settings that are numbers in the
  form and strings in a query (\<open>scalar\<close>), the attached files, and the API descriptors.
  A field that is absent is \<open>None\<close>.
\<close>

datatype scalar = Num string | Str string

fun truthy_scalar :: "scalar option \<Rightarrow> bool" where
  "truthy_scalar None = False"
| "truthy_scalar (Some (Num n)) = truthy (Some (JNum n))"
| "truthy_scalar (Some (Str s)) = truthy (Some (JStr s))"

text \<open>\<^verbatim>\<open>String(x)\<close>, the conversion \<^verbatim>\<open>params.append\<close> and the number parsers apply.\<close>

fun to_String :: "scalar \<Rightarrow> string" where
  "to_String (Num n) = n"
| "to_String (Str s) = s"

record attached_file =
  file_name :: string
  file_type :: string
  file_size :: nat
  file_content :: string

record api_config =
  api_id :: string
  endpoint :: "string option"
  apiKey :: "string option"

record text_request =
  prompt :: "string option"
  model :: "string option"
  seed :: "string option"
  temperature :: "scalar option"
  maxTokens :: "scalar option"
  files :: "attached_file list option"
  body_sessionId :: "string option"
  selectedApi :: "string option"
  selectedApiConfig :: "api_config option"
  customApis :: "api_config list option"
  localModels :: "api_config list option"

text \<open>The JSON of a 200 reply (its \<^verbatim>\<open>timestamp\<close>, a clock reading, is left out).\<close>

record success_body =
  res_response :: "json option"
  res_model :: "string option"
  res_filesProcessed :: nat
  res_sessionId :: string
  res_memoryContext :: bool
  res_selectedApi :: "string option"

text \<open>
  What the handler answers: the 200 reply, a 400 with its \<^verbatim>\<open>error\<close> text, or the 500 of
  the outer \<^verbatim>\<open>catch\<close> with the error it caught.
\<close>

datatype reply = Success success_body | BadRequest string | ServerError js_error

text \<open>The reply is an error reply: anything but the 200.\<close>

fun is_error :: "reply \<Rightarrow> bool" where
  "is_error (Success payload) = False"
| "is_error (BadRequest msg) = True"
| "is_error (ServerError err) = True"

text \<open>How a part of the handler ends: with a \<^verbatim>\<open>return\<close> of a 400, a throw, or a value.\<close>

datatype 'a flow = Respond400 string | Thrown js_error | Next 'a

subsection \<open>Encoders\<close>

definition HEX_digit :: "nat \<Rightarrow> char" where
  "HEX_digit n = ''0123456789ABCDEF'' ! n"

definition percent_byte :: "char \<Rightarrow> string" where
  "percent_byte c = [CHR ''%'', HEX_digit (of_char c div 16), HEX_digit (of_char c mod 16)]"

definition uri_unreserved :: "char \<Rightarrow> bool" where
  "uri_unreserved c =
     (c \<in> set (upper_letters @ lower_letters @ digits @ ''-_.!~*()'' @ [CHR 0x27]))"

definition encodeURIComponent :: "string \<Rightarrow> string" where
  "encodeURIComponent s = concat (map (\<lambda>c. if uri_unreserved c then [c] else percent_byte c) s)"

text \<open>\<^verbatim>\<open>URLSearchParams.prototype.toString\<close>: the form-urlencoded serialisation.\<close>

definition form_byte :: "char \<Rightarrow> string" where
  "form_byte c =
     (if c = CHR '' '' then ''+''
      else if c \<in> set (upper_letters @ lower_letters @ digits @ ''*-._'') then [c]
      else percent_byte c)"

definition form_encode :: "string \<Rightarrow> string" where
  "form_encode s = concat (map form_byte s)"

definition URLSearchParams_toString :: "(string \<times> string) list \<Rightarrow> string" where
  "URLSearchParams_toString params =
     js_join ''&'' (map (\<lambda>kv. form_encode (fst kv) @ ''='' @ form_encode (snd kv)) params)"

subsection \<open>fetch\<close>

definition fetch :: "env \<Rightarrow> wire_request \<Rightarrow> world \<Rightarrow> fetch_outcome \<times> world" where
  "fetch e rq w = (net e (length (fetch_log w)) rq, w\<lparr>fetch_log := fetch_log w @ [rq]\<rparr>)"

text \<open>\<^verbatim>\<open>await response.json()\<close>.\<close>

definition response_json :: "http_response \<Rightarrow> js_error + json" where
  "response_json r = (case body_json r of None \<Rightarrow> Inl SyntaxError | Some data \<Rightarrow> Inr data)"

subsection \<open>Lines 79 to 133: memory and the enhanced prompt\<close>

definition remember :: "env \<Rightarrow> text_request \<Rightarrow> string \<Rightarrow> world \<Rightarrow> (ChatMemory \<times> ChatMessage list) \<times> world" where
  "remember e rq p w =
     (let (chatMemory, w1) = getChatMemory e (body_sessionId rq) w;
          w2 = saveMessage e chatMemory User (Some (JStr p)) w1;
          (memory, w3) = getMemory e chatMemory 10 w2
      in ((chatMemory, memory), w3))"

definition consistency_instruction :: string where
  "consistency_instruction =
     ''Please respond to the current message while being aware of the previous conversation context. If the user references something from earlier in the conversation, acknowledge it and continue naturally. Maintain consistency with previous responses.''"

definition with_context :: "string \<Rightarrow> string \<Rightarrow> string" where
  "with_context memoryContext p =
     (if \<not> (memoryContext = [])
      then memoryContext @ ''Current user message: '' @ p @ [NL, NL] @ consistency_instruction
      else p)"

definition is_text_file :: "attached_file \<Rightarrow> bool" where
  "is_text_file file =
     (startsWith (file_type file) ''text/'' \<or>
      endsWith (file_name file) ''.txt'' \<or>
      endsWith (file_name file) ''.md'' \<or>
      endsWith (file_name file) ''.json'' \<or>
      endsWith (file_name file) ''.js'' \<or>
      endsWith (file_name file) ''.ts'' \<or>
      endsWith (file_name file) ''.jsx'' \<or>
      endsWith (file_name file) ''.tsx'' \<or>
      endsWith (file_name file) ''.py'' \<or>
      endsWith (file_name file) ''.html'' \<or>
      endsWith (file_name file) ''.css'' \<or>
      endsWith (file_name file) ''.xml'' \<or>
      endsWith (file_name file) ''.csv'')"

definition file_section :: "attached_file \<Rightarrow> string" where
  "file_section file =
     [NL] @ ''--- File: '' @ file_name file @ '' ('' @ file_type file @ '') ---'' @ [NL] @
     file_content file @ [NL] @ ''--- End of '' @ file_name file @ '' ---''"

definition with_files :: "attached_file list option \<Rightarrow> string \<Rightarrow> string" where
  "with_files fs enhancedPrompt =
     (case fs of
        None \<Rightarrow> enhancedPrompt
      | Some fl \<Rightarrow>
          if 0 < length fl then
            (let textFiles = filter is_text_file fl in
             if 0 < length textFiles then
               (let fileContents = js_join [NL, NL] (map file_section textFiles) in
                enhancedPrompt @ [NL, NL] @ ''[Attached Files Content]'' @ [NL] @ fileContents @
                [NL] @ ''[End of Files]'' @ [NL, NL] @
                ''Please consider the content of these attached files when responding to the user'' @
                [CHR 0x27] @ ''s message.'')
             else enhancedPrompt)
          else enhancedPrompt)"

definition structure_instruction :: string where
  "structure_instruction =
     [NL, NL] @ ''Please format your response with proper structure:'' @ [NL] @
     ''- Use code blocks with language specification (e.g., ```javascript, ```python)'' @ [NL] @
     ''- Use numbered or bulleted lists for clarity'' @ [NL] @
     ''- Use proper headings and formatting'' @ [NL] @
     ''- Include JSON data in formatted code blocks'' @ [NL] @
     ''- Make code snippets copyable and well-formatted''"

definition enhance :: "text_request \<Rightarrow> string \<Rightarrow> ChatMessage list \<Rightarrow> string" where
  "enhance rq p memory =
     (let memoryContext = formatMemoryForPrompt memory;
          enhancedPrompt = with_files (files rq) (with_context memoryContext p)
      in if \<not> (selectedApi rq = Some ''pollinations'')
         then enhancedPrompt @ structure_instruction
         else enhancedPrompt)"

subsection \<open>Lines 139 to 338: the call of the selected API\<close>

text \<open>\<^verbatim>\<open>temperature ? parseFloat(temperature) : 0.7\<close> and \<^verbatim>\<open>maxTokens ? parseInt(maxTokens) : 1000\<close>.\<close>

definition temperature_field :: "env \<Rightarrow> text_request \<Rightarrow> json" where
  "temperature_field e rq =
     (case temperature rq of
        None \<Rightarrow> JNum ''0.7''
      | Some t \<Rightarrow> if truthy_scalar (Some t) then parseFloat e (to_String t) else JNum ''0.7'')"

definition max_tokens_field :: "env \<Rightarrow> text_request \<Rightarrow> json" where
  "max_tokens_field e rq =
     (case maxTokens rq of
        None \<Rightarrow> JNum ''1000''
      | Some t \<Rightarrow> if truthy_scalar (Some t) then parseInt e (to_String t) else JNum ''1000'')"

definition user_messages :: "string \<Rightarrow> json" where
  "user_messages enhancedPrompt =
     JArr [JObj [(''role'', JStr ''user''), (''content'', JStr enhancedPrompt)]]"

text \<open>\<^verbatim>\<open>selectedApiConfig?.apiKey\<close>.\<close>

definition config_apiKey :: "text_request \<Rightarrow> string option" where
  "config_apiKey rq = (case selectedApiConfig rq of None \<Rightarrow> None | Some c \<Rightarrow> apiKey c)"

text \<open>\<^verbatim>\<open>data.choices[0]?.message?.content || dflt\<close> (lines 164 and 199).\<close>

definition choices0_content :: "json \<Rightarrow> string \<Rightarrow> js_error + json option" where
  "choices0_content data dflt =
     andThen (get_prop (Some data) ''choices'') (\<lambda>choices.
     andThen (get_index0 choices) (\<lambda>c0.
     andThen (opt_prop c0 ''message'') (\<lambda>message.
     andThen (opt_prop message ''content'') (\<lambda>c.
     Inr (js_or c (Some (JStr dflt)))))))"

text \<open>\<^verbatim>\<open>data.content?.[0]?.text || 'No response from Claude'\<close> (line 234).\<close>

definition content0_text :: "json \<Rightarrow> js_error + json option" where
  "content0_text data =
     andThen (get_prop (Some data) ''content'') (\<lambda>c.
     andThen (opt_index0 c) (\<lambda>c0.
     andThen (opt_prop c0 ''text'') (\<lambda>t.
     Inr (js_or t (Some (JStr ''No response from Claude''))))))"

text \<open>
  \<^verbatim>\<open>data.choices?.[0]?.message?.content || data.content || data.response || JSON.stringify(data)\<close>
  (line 318).
\<close>

definition custom_response_data :: "json \<Rightarrow> js_error + json option" where
  "custom_response_data data =
     andThen (get_prop (Some data) ''choices'') (\<lambda>choices.
     andThen (opt_index0 choices) (\<lambda>c0.
     andThen (opt_prop c0 ''message'') (\<lambda>message.
     andThen (opt_prop message ''content'') (\<lambda>c.
     if truthy c then Inr c else
     andThen (get_prop (Some data) ''content'') (\<lambda>d.
     if truthy d then Inr d else
     andThen (get_prop (Some data) ''response'') (\<lambda>r.
     if truthy r then Inr r else Inr (Some (JStr (JSON_stringify data)))))))))"

text \<open>
  The common end of the three keyed branches: \<^verbatim>\<open>response = await fetch(...)\<close>, then
  \<^verbatim>\<open>if (response.ok) { const data = await response.json(); responseData = ... }\<close>.
\<close>

definition fetch_json :: "env \<Rightarrow> wire_request \<Rightarrow> (json \<Rightarrow> js_error + json option) \<Rightarrow> world \<Rightarrow>
    (http_response \<times> json option) flow \<times> world" where
  "fetch_json e rq extract w =
     (case fetch e rq w of
        (Rejects, w') \<Rightarrow> (Thrown FetchFailed, w')
      | (Resolves response, w') \<Rightarrow>
          if ok response then
            (case andThen (response_json response) extract of
               Inl err \<Rightarrow> (Thrown err, w')
             | Inr responseData \<Rightarrow> (Next (response, responseData), w'))
          else (Next (response, None), w'))"

definition call_openai :: "env \<Rightarrow> text_request \<Rightarrow> string \<Rightarrow> world \<Rightarrow>
    (http_response \<times> json option) flow \<times> world" where
  "call_openai e rq enhancedPrompt w =
     (let key = str_or (config_apiKey rq) (str_or (OPENAI_API_KEY e) []) in
      if key = [] then (Respond400 ''OpenAI API key is required'', w)
      else fetch_json e
        \<lparr>url = ''https://api.openai.com/v1/chat/completions'',
         http_method = ''POST'',
         headers = [(''Content-Type'', ''application/json''),
                    (''Authorization'', ''Bearer '' @ key)],
         body = Some (JSON_stringify (JObj
           [(''model'', JStr (str_or (model rq) ''gpt-3.5-turbo'')),
            (''messages'', user_messages enhancedPrompt),
            (''temperature'', temperature_field e rq),
            (''max_tokens'', max_tokens_field e rq)]))\<rparr>
        (\<lambda>data. choices0_content data ''No response from OpenAI'') w)"

definition mistralModel :: "text_request \<Rightarrow> string" where
  "mistralModel rq =
     (if model rq = Some ''gpt-3.5-turbo'' \<or> model rq = Some ''gpt-4'' \<or> model rq = Some ''OpenAI''
      then ''mistral-tiny''
      else if model rq = Some ''claude-3-sonnet'' \<or> model rq = Some ''claude-3-haiku''
      then ''mistral-small''
      else str_or (model rq) ''mistral-tiny'')"

definition call_mistral :: "env \<Rightarrow> text_request \<Rightarrow> string \<Rightarrow> world \<Rightarrow>
    (http_response \<times> json option) flow \<times> world" where
  "call_mistral e rq enhancedPrompt w =
     (let key = str_or (config_apiKey rq) [] in
      if key = [] then (Respond400 ''Mistral API key is required'', w)
      else fetch_json e
        \<lparr>url = ''https://api.mistral.ai/v1/chat/completions'',
         http_method = ''POST'',
         headers = [(''Content-Type'', ''application/json''),
                    (''Authorization'', ''Bearer '' @ key)],
         body = Some (JSON_stringify (JObj
           [(''model'', JStr (mistralModel rq)),
            (''messages'', user_messages enhancedPrompt),
            (''temperature'', temperature_field e rq),
            (''max_tokens'', max_tokens_field e rq)]))\<rparr>
        (\<lambda>data. choices0_content data ''No response from Mistral'') w)"

definition claudeModel :: "text_request \<Rightarrow> string" where
  "claudeModel rq =
     (if model rq = Some ''gpt-3.5-turbo'' \<or> model rq = Some ''gpt-4'' \<or> model rq = Some ''OpenAI''
      then ''claude-3-haiku-20240307''
      else if model rq = Some ''mistral-tiny'' \<or> model rq = Some ''mistral-small''
      then ''claude-3-sonnet-20240229''
      else str_or (model rq) ''claude-3-haiku-20240307'')"

definition call_claude :: "env \<Rightarrow> text_request \<Rightarrow> string \<Rightarrow> world \<Rightarrow>
    (http_response \<times> json option) flow \<times> world" where
  "call_claude e rq enhancedPrompt w =
     (let key = str_or (config_apiKey rq) [] in
      if key = [] then (Respond400 ''Claude API key is required'', w)
      else fetch_json e
        \<lparr>url = ''https://api.anthropic.com/v1/messages'',
         http_method = ''POST'',
         headers = [(''Content-Type'', ''application/json''),
                    (''x-api-key'', key),
                    (''anthropic-version'', ''2023-06-01'')],
         body = Some (JSON_stringify (JObj
           [(''model'', JStr (claudeModel rq)),
            (''max_tokens'', max_tokens_field e rq),
            (''messages'', user_messages enhancedPrompt)]))\<rparr>
        content0_text w)"

text \<open>\<^verbatim>\<open>response = await fetch(...)\<close>, then \<^verbatim>\<open>if (response.ok) responseData = await response.text()\<close>.\<close>

definition fetch_text :: "env \<Rightarrow> wire_request \<Rightarrow> world \<Rightarrow> (http_response \<times> json option) flow \<times> world" where
  "fetch_text e rq w =
     (case fetch e rq w of
        (Rejects, w') \<Rightarrow> (Thrown FetchFailed, w')
      | (Resolves response, w') \<Rightarrow>
          (Next (response, if ok response then Some (JStr (body_text response)) else None), w'))"

definition pollinations_params :: "env \<Rightarrow> text_request \<Rightarrow> (string \<times> string) list" where
  "pollinations_params e rq =
     (if truthy_str (model rq) \<and> \<not> (model rq = Some ''OpenAI'') \<and> \<not> (model rq = Some ''openai'')
      then [(''model'', toLowerCase e (str_or (model rq) []))] else []) @
     (if truthy_str (seed rq) then [(''seed'', str_or (seed rq) [])] else []) @
     (case temperature rq of
        None \<Rightarrow> []
      | Some t \<Rightarrow> if truthy_scalar (Some t) then [(''temperature'', to_String t)] else []) @
     (case maxTokens rq of
        None \<Rightarrow> []
      | Some t \<Rightarrow> if truthy_scalar (Some t) then [(''max_tokens'', to_String t)] else [])"

definition pollinations_apiUrl :: "string \<Rightarrow> string" where
  "pollinations_apiUrl enhancedPrompt =
     ''https://text.pollinations.ai/'' @ encodeURIComponent enhancedPrompt"

definition call_pollinations :: "env \<Rightarrow> text_request \<Rightarrow> string \<Rightarrow> world \<Rightarrow>
    (http_response \<times> json option) flow \<times> world" where
  "call_pollinations e rq enhancedPrompt w =
     (let apiUrl = pollinations_apiUrl enhancedPrompt;
          params = URLSearchParams_toString (pollinations_params e rq)
      in fetch_text e
           \<lparr>url = (if \<not> (params = []) then apiUrl @ ''?'' @ params else apiUrl),
            http_method = ''GET'',
            headers = [(''User-Agent'', ''AI-Chat-Studio/1.0'')],
            body = None\<rparr> w)"

text \<open>\<^verbatim>\<open>fetch(apiUrl)\<close> of the two fall-backs (lines 323 to 327 and 332 to 336).\<close>

definition fallback_request :: "string \<Rightarrow> wire_request" where
  "fallback_request enhancedPrompt =
     \<lparr>url = pollinations_apiUrl enhancedPrompt, http_method = ''GET'', headers = [], body = None\<rparr>"

definition isMessagesFormat :: "string \<Rightarrow> bool" where
  "isMessagesFormat ep =
     (str_includes ep ''openai.com'' \<or>
      str_includes ep ''anthropic.com'' \<or>
      str_includes ep ''mistral.ai'' \<or>
      str_includes ep ''/chat/completions'' \<or>
      str_includes ep ''/v1/messages'')"

text \<open>
  \<^verbatim>\<open>allApis.find(api => api.id === selectedApi) || selectedApiConfig\<close>, for the
  \<open>selectedApi\<close> \<open>a\<close> of the last branch.
\<close>

definition find_apiConfig :: "text_request \<Rightarrow> string \<Rightarrow> api_config option" where
  "find_apiConfig rq a =
     (let allApis = (case customApis rq of None \<Rightarrow> [] | Some l \<Rightarrow> l) @
                    (case localModels rq of None \<Rightarrow> [] | Some l \<Rightarrow> l)
      in case find (\<lambda>api. api_id api = a) allApis of
           Some c \<Rightarrow> Some c
         | None \<Rightarrow> selectedApiConfig rq)"

text \<open>The body of the \<^verbatim>\<open>try\<close> of the last branch (lines 272 to 328).\<close>

definition custom_try :: "env \<Rightarrow> text_request \<Rightarrow> string \<Rightarrow> string \<Rightarrow> world \<Rightarrow>
    (http_response \<times> json option) flow \<times> world" where
  "custom_try e rq a enhancedPrompt w =
     (case find_apiConfig rq a of
        None \<Rightarrow> fetch_text e (fallback_request enhancedPrompt) w
      | Some apiConfig \<Rightarrow>
          if truthy_str (endpoint apiConfig) then
            (let ep = str_or (endpoint apiConfig) [];
                 requestBody =
                   [(''model'', JStr (str_or (model rq) ''default'')),
                    (''temperature'', temperature_field e rq),
                    (''max_tokens'', max_tokens_field e rq)] @
                   (if isMessagesFormat ep
                    then [(''messages'', user_messages enhancedPrompt)]
                    else [(''prompt'', JStr enhancedPrompt)])
             in fetch_json e
                  \<lparr>url = ep,
                   http_method = ''POST'',
                   headers = [(''Content-Type'', ''application/json'')] @
                      (if truthy_str (apiKey apiConfig)
                       then [(''Authorization'', ''Bearer '' @ str_or (apiKey apiConfig) [])]
                       else []),
                   body = Some (JSON_stringify (JObj requestBody))\<rparr>
                  custom_response_data w)
          else fetch_text e (fallback_request enhancedPrompt) w)"

text \<open>The \<^verbatim>\<open>try\<close> with its \<^verbatim>\<open>catch\<close> (lines 329 to 337): whatever was thrown, fall back.\<close>

definition call_custom :: "env \<Rightarrow> text_request \<Rightarrow> string \<Rightarrow> string \<Rightarrow> world \<Rightarrow>
    (http_response \<times> json option) flow \<times> world" where
  "call_custom e rq a enhancedPrompt w =
     (case custom_try e rq a enhancedPrompt w of
        (Thrown err, w') \<Rightarrow> fetch_text e (fallback_request enhancedPrompt) w'
      | other \<Rightarrow> other)"

definition dispatch :: "env \<Rightarrow> text_request \<Rightarrow> string \<Rightarrow> world \<Rightarrow>
    (http_response \<times> json option) flow \<times> world" where
  "dispatch e rq enhancedPrompt w =
     (if selectedApi rq = Some ''openai'' then call_openai e rq enhancedPrompt w
      else if selectedApi rq = Some ''mistral'' then call_mistral e rq enhancedPrompt w
      else if selectedApi rq = Some ''claude'' then call_claude e rq enhancedPrompt w
      else if selectedApi rq = Some ''pollinations'' \<or> \<not> truthy_str (selectedApi rq)
        then call_pollinations e rq enhancedPrompt w
      else call_custom e rq (str_or (selectedApi rq) []) enhancedPrompt w)"

subsection \<open>Lines 340 to 357, and the handler\<close>

text \<open>
  On every path that reaches line 340 \<^verbatim>\<open>response\<close> has been assigned, so \<^verbatim>\<open>!response\<close>
  is false there; a \<^verbatim>\<open>fetch\<close> that gets no response rejects, which is a throw.
\<close>

definition conclude :: "env \<Rightarrow> text_request \<Rightarrow> ChatMemory \<Rightarrow> ChatMessage list \<Rightarrow>
    http_response \<times> json option \<Rightarrow> world \<Rightarrow> success_body flow \<times> world" where
  "conclude e rq chatMemory memory rr w =
     (let response = fst rr; responseData = snd rr in
      if \<not> ok response then
        (Thrown (Error (''API error: '' @
            (if status response = 0 then ''Network'' else decimal (status response)) @
            '' - '' @ body_text response)), w)
      else
        (Next \<lparr>res_response = responseData,
               res_model = model rq,
               res_filesProcessed = (case files rq of None \<Rightarrow> 0 | Some fl \<Rightarrow> length fl),
               res_sessionId = getSessionId chatMemory,
               res_memoryContext = (0 < length memory),
               res_selectedApi = selectedApi rq\<rparr>,
         saveMessage e chatMemory Assistant responseData w))"

definition POST :: "env \<Rightarrow> text_request \<Rightarrow> world \<Rightarrow> reply \<times> world" where
  "POST e rq w =
     (if \<not> truthy_str (prompt rq) then (BadRequest ''Prompt is required'', w)
      else
        (let p = str_or (prompt rq) [];
             ((chatMemory, memory), w1) = remember e rq p w;
             enhancedPrompt = enhance rq p memory
         in case dispatch e rq enhancedPrompt w1 of
              (Respond400 msg, w2) \<Rightarrow> (BadRequest msg, w2)
            | (Thrown err, w2) \<Rightarrow> (ServerError err, w2)
            | (Next rr, w2) \<Rightarrow>
                (case conclude e rq chatMemory memory rr w2 of
                   (Respond400 msg, w3) \<Rightarrow> (BadRequest msg, w3)
                 | (Thrown err, w3) \<Rightarrow> (ServerError err, w3)
                 | (Next payload, w3) \<Rightarrow> (Success payload, w3))))"

section \<open>app/api/local/route.ts: generateText\<close>

text \<open>
  \<open>options\<close> is a JSON object, \<open>headers\<close> a record of strings; both are property lists.
  \<open>set_prop\<close> is the assignment \<^verbatim>\<open>o[k] = v\<close>, \<open>spread\<close> the \<^verbatim>\<open>...o\<close> at the end of an object
  literal. An object enumerates its array-index keys (the canonical numerals below
  \<open>2^32 - 1\<close>) first, by value, and then its other keys as they were inserted:
  \<open>own_property_order\<close>.
\<close>

definition index_value :: "string \<Rightarrow> nat" where
  "index_value k = foldl (\<lambda>n c. 10 * n + (of_char c - 48)) 0 k"

definition is_array_index :: "string \<Rightarrow> bool" where
  "is_array_index k =
     (\<not> (k = []) \<and> list_all (\<lambda>c. c \<in> set digits) k \<and>
      (k = ''0'' \<or> \<not> (take 1 k = ''0'')) \<and> index_value k < 4294967295)"

definition own_property_order :: "(string \<times> 'v) list \<Rightarrow> (string \<times> 'v) list" where
  "own_property_order kvs =
     sort_key (\<lambda>kv. index_value (fst kv)) (filter (\<lambda>kv. is_array_index (fst kv)) kvs) @
     filter (\<lambda>kv. \<not> is_array_index (fst kv)) kvs"

fun set_prop :: "string \<Rightarrow> 'v \<Rightarrow> (string \<times> 'v) list \<Rightarrow> (string \<times> 'v) list" where
  "set_prop k v [] = [(k, v)]"
| "set_prop k v (kv # kvs) = (if fst kv = k then (k, v) # kvs else kv # set_prop k v kvs)"

definition spread :: "(string \<times> 'v) list \<Rightarrow> (string \<times> 'v) list \<Rightarrow> (string \<times> 'v) list" where
  "spread base extra =
     own_property_order (foldl (\<lambda>acc kv. set_prop (fst kv) (snd kv) acc) base extra)"

text \<open>\<^verbatim>\<open>options.k || d\<close>.\<close>

definition option_or :: "(string \<times> json) list \<Rightarrow> string \<Rightarrow> json \<Rightarrow> json" where
  "option_or options k d =
     (case map_of options k of None \<Rightarrow> d | Some v \<Rightarrow> if truthy (Some v) then v else d)"

record local_body =
  loc_response :: "json option"
  loc_model :: json
  loc_format :: string
  loc_usage :: json

text \<open>The first \<^verbatim>\<open>switch (format)\<close>: the request body and the endpoint, or the 400.\<close>

definition local_request :: "string \<Rightarrow> string \<Rightarrow> string \<Rightarrow> (string \<times> json) list \<Rightarrow>
    (json \<times> string) option" where
  "local_request endpoint' p format options =
     (if format = ''openai'' then
        Some (JObj (spread
                [(''model'', option_or options ''model'' (JStr ''gpt-3.5-turbo'')),
                 (''messages'', JArr [JObj [(''role'', JStr ''user''), (''content'', JStr p)]]),
                 (''temperature'', option_or options ''temperature'' (JNum ''0.7'')),
                 (''max_tokens'', option_or options ''max_tokens'' (JNum ''1000''))]
                options),
              endpoint' @ ''/v1/chat/completions'')
      else if format = ''ollama'' then
        Some (JObj
                [(''model'', option_or options ''model'' (JStr ''llama2'')),
                 (''prompt'', JStr p),
                 (''stream'', JBool False),
                 (''options'', JObj (spread
                    [(''temperature'', option_or options ''temperature'' (JNum ''0.7'')),
                     (''num_predict'', option_or options ''max_tokens'' (JNum ''1000''))]
                    options))],
              endpoint' @ ''/api/generate'')
      else if format = ''custom'' then
        Some (JObj (spread [(''prompt'', JStr p)] options), endpoint')
      else None)"

text \<open>The second \<^verbatim>\<open>switch (format)\<close> (lines 136 to 146); \<open>responseText\<close> starts empty.\<close>

definition local_responseText :: "string \<Rightarrow> json \<Rightarrow> js_error + json option" where
  "local_responseText format data =
     (if format = ''openai'' then
        andThen (get_prop (Some data) ''choices'') (\<lambda>choices.
        andThen (opt_index0 choices) (\<lambda>c0.
        andThen (opt_prop c0 ''message'') (\<lambda>message.
        andThen (opt_prop message ''content'') (\<lambda>c.
        if truthy c then Inr c else
        andThen (get_prop (Some data) ''response'') (\<lambda>r.
        if truthy r then Inr r else Inr (Some (JStr [])))))))
      else if format = ''ollama'' then
        andThen (get_prop (Some data) ''response'') (\<lambda>r.
        if truthy r then Inr r else
        andThen (get_prop (Some data) ''text'') (\<lambda>t.
        if truthy t then Inr t else Inr (Some (JStr []))))
      else if format = ''custom'' then
        andThen (get_prop (Some data) ''response'') (\<lambda>r.
        if truthy r then Inr r else
        andThen (get_prop (Some data) ''text'') (\<lambda>t.
        if truthy t then Inr t else
        andThen (get_prop (Some data) ''content'') (\<lambda>c.
        if truthy c then Inr c else Inr (Some (JStr (JSON_stringify data))))))
      else Inr (Some (JStr [])))"

definition generateText :: "env \<Rightarrow> string \<Rightarrow> string \<Rightarrow> string \<Rightarrow> (string \<times> string) list \<Rightarrow>
    (string \<times> json) list \<Rightarrow> world \<Rightarrow> local_body flow \<times> world" where
  "generateText e endpoint' p format hdrs options w =
     (case local_request endpoint' p format options of
        None \<Rightarrow> (Respond400 ''Unsupported format'', w)
      | Some (requestBody, apiEndpoint) \<Rightarrow>
          (case fetch e
                  \<lparr>url = apiEndpoint,
                   http_method = ''POST'',
                   headers = spread [(''Content-Type'', ''application/json'')] hdrs,
                   body = Some (JSON_stringify requestBody)\<rparr> w of
             (Rejects, w') \<Rightarrow> (Thrown FetchFailed, w')
           | (Resolves response, w') \<Rightarrow>
               if \<not> ok response then
                 (Thrown (Error (''Generation failed: '' @ decimal (status response) @ '' '' @
                                statusText response)), w')
               else
                 (case andThen (response_json response) (\<lambda>data.
                         andThen (local_responseText format data) (\<lambda>responseText.
                         andThen (get_prop (Some data) ''usage'') (\<lambda>usage.
                         Inr \<lparr>loc_response = responseText,
                              loc_model = option_or options ''model'' (JStr ''unknown''),
                              loc_format = format,
                              loc_usage = (case usage of
                                             None \<Rightarrow> JObj []
                                           | Some u \<Rightarrow> if truthy (Some u) then u else JObj [])\<rparr>))) of
                    Inl err \<Rightarrow> (Thrown err, w')
                  | Inr payload \<Rightarrow> (Next payload, w'))))"

section \<open>The reading of the specification\<close>

text \<open>
  The specification's words, to compare the code with. A turn is rendered as
  \<open>ROLE: content\<close> with the role in capitals.
\<close>

definition role_label :: "role \<Rightarrow> string" where
  "role_label r = (case r of User \<Rightarrow> ''USER'' | Assistant \<Rightarrow> ''ASSISTANT'')"

definition turn_line :: "ChatMessage \<Rightarrow> string" where
  "turn_line m = role_label (role m) @ '': '' @ content m"

text \<open>\<open>all(session_id)\<close>: the turns of a session, oldest first.\<close>

definition history :: "world \<Rightarrow> string \<Rightarrow> ChatMessage list" where
  "history w sid = map to_message (filter (\<lambda>r. row_sessionId r = sid) (chatMemory_table w))"

text \<open>
  "First present wins": the first of the candidates that counts as present (is truthy),
  else the last resort. A candidate is named by its path from the payload; a step that
  cannot be taken makes the candidate absent.
\<close>

datatype step = Key string | Index0

fun at_path :: "json option \<Rightarrow> step list \<Rightarrow> json option" where
  "at_path v [] = v"
| "at_path v (Key k # ps) = (case get_prop v k of Inl err \<Rightarrow> None | Inr x \<Rightarrow> at_path x ps)"
| "at_path v (Index0 # ps) = (case get_index0 v of Inl err \<Rightarrow> None | Inr x \<Rightarrow> at_path x ps)"

fun first_present :: "json option list \<Rightarrow> json option \<Rightarrow> json option" where
  "first_present [] last_resort = last_resort"
| "first_present (c # cs) last_resort = (if truthy c then c else first_present cs last_resort)"

text \<open>The prompt is "empty or consists only of whitespace after trimming".\<close>

definition blank_prompt :: "text_request \<Rightarrow> bool" where
  "blank_prompt rq = (case prompt rq of None \<Rightarrow> True | Some p \<Rightarrow> trim p = [])"

section \<open>Sample inputs\<close>

definition reply_ok :: "string \<Rightarrow> json option \<Rightarrow> http_response" where
  "reply_ok t j = \<lparr>status = 200, statusText = ''OK'', body_text = t, body_json = j\<rparr>"

text \<open>A 200 whose body is the JSON value \<open>d\<close>.\<close>

definition reply_json :: "json \<Rightarrow> http_response" where
  "reply_json d = reply_ok (JSON_stringify d) (Some d)"

text \<open>
  An environment whose store works and whose every \<^verbatim>\<open>fetch\<close> is answered with \<open>out\<close>. The
  samples hold ASCII text and numbers in canonical form, on which the parsers and the
  lower-casing are as given here.
\<close>

definition env_with :: "fetch_outcome \<Rightarrow> env" where
  "env_with out =
     \<lparr>db_up = (\<lambda>k. True),
      net = (\<lambda>k rq. out),
      Date_now = (\<lambda>k. 1700000000000),
      Math_random_36 = (\<lambda>k. ''0.4fzyo82mvyr''),
      OPENAI_API_KEY = None,
      parseFloat = JNum,
      parseInt = JNum,
      toLowerCase = ascii_toLowerCase\<rparr>"

definition world0 :: world where
  "world0 = \<lparr>currentMemory = None, chatMemory_table = [], db_calls = 0, fetch_log = [],
             instances = 0\<rparr>"

definition request_with :: "string option \<Rightarrow> string option \<Rightarrow> string option \<Rightarrow> api_config option \<Rightarrow>
    text_request" where
  "request_with p sid api cfg =
     \<lparr>prompt = p, model = None, seed = None, temperature = None, maxTokens = None,
      files = None, body_sessionId = sid, selectedApi = api, selectedApiConfig = cfg,
      customApis = None, localModels = None\<rparr>"

section \<open>What the handlers do to the world\<close>

lemma fetch_json_world:
  "\<exists>l. snd (fetch_json e rq ex w) = w\<lparr>fetch_log := fetch_log w @ l\<rparr>"
  by (auto simp: fetch_json_def fetch_def split: fetch_outcome.splits sum.splits)

lemma fetch_text_world:
  "\<exists>l. snd (fetch_text e rq w) = w\<lparr>fetch_log := fetch_log w @ l\<rparr>"
  by (auto simp: fetch_text_def fetch_def split: fetch_outcome.splits)

lemma same_world: "\<exists>l. w = w\<lparr>fetch_log := fetch_log w @ l\<rparr>"
  by (rule exI [of _ "[]"]) simp

lemma call_openai_world:
  "\<exists>l. snd (call_openai e rq ep w) = w\<lparr>fetch_log := fetch_log w @ l\<rparr>"
  by (simp add: call_openai_def Let_def fetch_json_world same_world)

lemma call_mistral_world:
  "\<exists>l. snd (call_mistral e rq ep w) = w\<lparr>fetch_log := fetch_log w @ l\<rparr>"
  by (simp add: call_mistral_def Let_def fetch_json_world same_world)

lemma call_claude_world:
  "\<exists>l. snd (call_claude e rq ep w) = w\<lparr>fetch_log := fetch_log w @ l\<rparr>"
  by (simp add: call_claude_def Let_def fetch_json_world same_world)

lemma call_pollinations_world:
  "\<exists>l. snd (call_pollinations e rq ep w) = w\<lparr>fetch_log := fetch_log w @ l\<rparr>"
  by (simp add: call_pollinations_def Let_def fetch_text_world)

lemma custom_try_world:
  "\<exists>l. snd (custom_try e rq a ep w) = w\<lparr>fetch_log := fetch_log w @ l\<rparr>"
  by (simp add: custom_try_def Let_def fetch_text_world fetch_json_world split: option.splits)

lemma call_custom_world:
  "\<exists>l. snd (call_custom e rq a ep w) = w\<lparr>fetch_log := fetch_log w @ l\<rparr>"
proof -
  obtain l where l: "snd (custom_try e rq a ep w) = w\<lparr>fetch_log := fetch_log w @ l\<rparr>"
    using custom_try_world by blast
  obtain fl w' where c: "custom_try e rq a ep w = (fl, w')"
    by (cases "custom_try e rq a ep w")
  with l have w': "w' = w\<lparr>fetch_log := fetch_log w @ l\<rparr>"
    by simp
  show ?thesis
  proof (cases fl)
    case (Thrown err)
    obtain l2 where
      "snd (fetch_text e (fallback_request ep) w') = w'\<lparr>fetch_log := fetch_log w' @ l2\<rparr>"
      using fetch_text_world by blast
    with Thrown c w' show ?thesis
      by (auto simp: call_custom_def intro: exI [of _ "l @ l2"])
  qed (use c w' in \<open>auto simp: call_custom_def\<close>)
qed

lemma dispatch_world:
  "\<exists>l. snd (dispatch e rq ep w) = w\<lparr>fetch_log := fetch_log w @ l\<rparr>"
  by (simp add: dispatch_def call_openai_world call_mistral_world call_claude_world
      call_pollinations_world call_custom_world)

lemma dispatch_table: "chatMemory_table (snd (dispatch e rq ep w)) = chatMemory_table w"
  using dispatch_world [of e rq ep w] by auto

lemma remember_fetch_log: "fetch_log (snd (remember e rq p w)) = fetch_log w"
  by (auto simp: remember_def getChatMemory_def new_ChatMemory_def saveMessage_def db_create_def
      getMemory_def db_findMany_def Let_def split: option.splits prod.splits json.splits sum.splits)

lemmas POST_unfold =
  POST_def remember_def getChatMemory_def new_ChatMemory_def saveMessage_def db_create_def
  getMemory_def db_findMany_def enhance_def dispatch_def conclude_def
  fetch_text_def fetch_json_def fetch_def ok_def str_or_def getSessionId_def to_message_def
  env_with_def world0_def request_with_def reply_ok_def reply_json_def Let_def

section \<open>Session memory\<close>

lemma toUpperCase_role_text: "toUpperCase (role_text r) = role_label r"
  by (cases r) (simp_all add: toUpperCase_def role_label_def lower_letters_def upper_letters_def)

lemma js_join_Cons: "js_join sep (x # xs) = x @ concat (map (\<lambda>y. sep @ y) xs)"
  by (induction xs arbitrary: x) simp_all

text \<open>
  C9. \<open>formatMemoryForPrompt\<close> of no turns is the empty string; of the turns \<open>m # ms\<close> it is
  the line \<open>[Previous Conversation Context]\<close>, then the turns as \<open>ROLE: content\<close> with the
  role in capitals, each after the first on a new line, then the line \<open>[End of Context]\<close>
  and an empty line.
\<close>

theorem C9_formatMemoryForPrompt:
  "formatMemoryForPrompt [] = [] \<and>
   formatMemoryForPrompt (m # ms) =
     ''[Previous Conversation Context]'' @ [NL] @
     turn_line m @ concat (map (\<lambda>x. NL # turn_line x) ms) @
     [NL] @ ''[End of Context]'' @ [NL, NL]"
  by (simp add: formatMemoryForPrompt_def js_join_Cons toUpperCase_role_text turn_line_def o_def)

theorem C9_formatMemoryForPrompt_witness:
  "formatMemoryForPrompt
     [\<lparr>role = User, content = ''hi''\<rparr>, \<lparr>role = Assistant, content = ''yo''\<rparr>] =
   ''[Previous Conversation Context]'' @ [NL] @ ''USER: hi'' @ [NL] @ ''ASSISTANT: yo'' @ [NL] @
   ''[End of Context]'' @ [NL, NL]"
  using C9_formatMemoryForPrompt
    [of "\<lparr>role = User, content = ''hi''\<rparr>" "[\<lparr>role = Assistant, content = ''yo''\<rparr>]"]
  by (simp add: turn_line_def role_label_def)

text \<open>
  C10. \<open>getChatMemory\<close> keeps one current instance for the process. Called with a non-empty
  session id \<open>s\<close> it returns an instance whose \<open>getSessionId()\<close> is \<open>s\<close>. Called with no
  session id once an instance exists (so after any earlier call) it returns that very
  instance, session id and all, and changes nothing: no new instance is constructed and
  no session id is minted.
\<close>

theorem C10_getChatMemory_singleton:
  "(s \<noteq> [] \<longrightarrow> getSessionId (fst (getChatMemory e (Some s) w)) = s) \<and>
   getChatMemory e None (snd (getChatMemory e sid w)) = getChatMemory e sid w \<and>
   (currentMemory w = Some cur \<longrightarrow> getChatMemory e None w = (cur, w))"
  by (auto simp: getChatMemory_def new_ChatMemory_def getSessionId_def str_or_def
      split: option.splits prod.splits)

theorem C10_getChatMemory_singleton_witness:
  "getSessionId (fst (getChatMemory (env_with Rejects) (Some ''abc'')
       (world0\<lparr>currentMemory := Some \<lparr>oid = 0, sessionId = ''xyz''\<rparr>\<rparr>))) = ''abc'' \<and>
   getChatMemory (env_with Rejects) None
       (snd (getChatMemory (env_with Rejects) (Some ''abc'')
          (world0\<lparr>currentMemory := Some \<lparr>oid = 0, sessionId = ''xyz''\<rparr>\<rparr>))) =
     getChatMemory (env_with Rejects) (Some ''abc'')
       (world0\<lparr>currentMemory := Some \<lparr>oid = 0, sessionId = ''xyz''\<rparr>\<rparr>) \<and>
   getChatMemory (env_with Rejects) None
       (world0\<lparr>currentMemory := Some \<lparr>oid = 0, sessionId = ''xyz''\<rparr>\<rparr>) =
     (\<lparr>oid = 0, sessionId = ''xyz''\<rparr>,
      world0\<lparr>currentMemory := Some \<lparr>oid = 0, sessionId = ''xyz''\<rparr>\<rparr>)"
  using C10_getChatMemory_singleton
    [of "''abc''" "env_with Rejects"
        "world0\<lparr>currentMemory := Some \<lparr>oid = 0, sessionId = ''xyz''\<rparr>\<rparr>"
        "Some ''abc''" "\<lparr>oid = 0, sessionId = ''xyz''\<rparr>"]
  by simp

text \<open>
  C5. While the store answers, \<open>getMemory(n)\<close> returns the first \<open>n\<close> turns of what
  \<open>getFullMemory()\<close> returns, which is the whole history of the session, oldest first:
  the earliest \<open>n\<close> turns, a prefix of the history.
\<close>

theorem C5_getMemory_earliest:
  "db_up e (db_calls w) \<Longrightarrow>
     fst (getMemory e cm n w) = take n (fst (getFullMemory e cm w)) \<and>
     fst (getFullMemory e cm w) = history w (sessionId cm)"
  by (simp add: getMemory_def getFullMemory_def db_findMany_def history_def take_map)

text \<open>
  With three turns stored and a limit of two, the two earliest come back, not the two
  most recent.
\<close>

theorem C5_getMemory_earliest_witness:
  "fst (getMemory (env_with Rejects) \<lparr>oid = 0, sessionId = ''s1''\<rparr> 2
          (world0\<lparr>chatMemory_table :=
             [\<lparr>row_sessionId = ''s1'', row_role = User, row_content = ''one''\<rparr>,
              \<lparr>row_sessionId = ''s1'', row_role = Assistant, row_content = ''two''\<rparr>,
              \<lparr>row_sessionId = ''s1'', row_role = User, row_content = ''three''\<rparr>]\<rparr>)) =
     [\<lparr>role = User, content = ''one''\<rparr>, \<lparr>role = Assistant, content = ''two''\<rparr>]"
  using C5_getMemory_earliest
    [of "env_with Rejects"
        "world0\<lparr>chatMemory_table :=
             [\<lparr>row_sessionId = ''s1'', row_role = User, row_content = ''one''\<rparr>,
              \<lparr>row_sessionId = ''s1'', row_role = Assistant, row_content = ''two''\<rparr>,
              \<lparr>row_sessionId = ''s1'', row_role = User, row_content = ''three''\<rparr>]\<rparr>"
        "\<lparr>oid = 0, sessionId = ''s1''\<rparr>" 2]
  by (simp add: env_with_def world0_def history_def to_message_def)

section \<open>The text route\<close>

text \<open>
  C1, as the code has it. A request whose prompt is missing or the empty string is
  answered with the 400 "Prompt is required" and nothing else happens: no row is
  written, no \<^verbatim>\<open>fetch\<close> is made, the world is what it was. (The prompt is not trimmed:
  see the counterexample.)
\<close>

theorem C1_empty_prompt_rejected:
  "prompt rq = None \<or> prompt rq = Some [] \<Longrightarrow>
     POST e rq w = (BadRequest ''Prompt is required'', w)"
  by (auto simp: POST_def)

theorem C1_empty_prompt_rejected_witness:
  "POST (env_with Rejects) (request_with (Some []) None None None) world0 =
     (BadRequest ''Prompt is required'', world0)"
  using C1_empty_prompt_rejected
    [of "request_with (Some []) None None None" "env_with Rejects" world0]
  by (simp add: request_with_def)

text \<open>
  C1 as stated fails: the prompt of one space is blank after trimming, yet the request is
  served. The user turn and the assistant turn are written and one \<^verbatim>\<open>fetch\<close> is made.
\<close>

theorem C1_blank_prompt_counterexample:
  "blank_prompt (request_with (Some '' '') (Some ''s1'') None None) \<and>
   chatMemory_table (snd (POST (env_with (Resolves (reply_ok ''hi'' None)))
       (request_with (Some '' '') (Some ''s1'') None None) world0)) =
     [\<lparr>row_sessionId = ''s1'', row_role = User, row_content = '' ''\<rparr>,
      \<lparr>row_sessionId = ''s1'', row_role = Assistant, row_content = ''hi''\<rparr>] \<and>
   length (fetch_log (snd (POST (env_with (Resolves (reply_ok ''hi'' None)))
       (request_with (Some '' '') (Some ''s1'') None None) world0))) = 1"
  by (simp add: POST_unfold blank_prompt_def trim_def is_space_def call_pollinations_def)

text \<open>
  C3, as the code has it. A request with a prompt that selects the built-in provider
  \<open>openai\<close>, with no API key in the descriptor it brings (\<open>selectedApiConfig\<close>) and none in the
  process environment (\<open>OPENAI_API_KEY\<close>), is answered with the 400 "OpenAI API key is
  required", and no \<^verbatim>\<open>fetch\<close> is made. The gate belongs to that branch of the handler, not
  to the wire format: see the counterexample.
\<close>

theorem C3_openai_credential_gate:
  assumes "truthy_str (prompt rq)"
    and "selectedApi rq = Some ''openai''"
    and "\<not> truthy_str (config_apiKey rq)"
    and "\<not> truthy_str (OPENAI_API_KEY e)"
  shows "fst (POST e rq w) = BadRequest ''OpenAI API key is required'' \<and>
         fetch_log (snd (POST e rq w)) = fetch_log w"
proof -
  have key: "str_or (config_apiKey rq) (str_or (OPENAI_API_KEY e) []) = []"
    using assms(3,4) by (auto simp: str_or_def split: option.splits)
  obtain cm mem w1 where r: "remember e rq (str_or (prompt rq) []) w = ((cm, mem), w1)"
    by (metis surj_pair)
  have "fetch_log w1 = fetch_log w"
    using remember_fetch_log [of e rq "str_or (prompt rq) []" w] r by simp
  then show ?thesis
    using assms(1,2) key r by (simp add: POST_def dispatch_def call_openai_def)
qed

theorem C3_openai_credential_gate_witness:
  "fst (POST (env_with Rejects)
          (request_with (Some ''hello'') (Some ''s1'') (Some ''openai'') None) world0) =
     BadRequest ''OpenAI API key is required'' \<and>
   fetch_log (snd (POST (env_with Rejects)
          (request_with (Some ''hello'') (Some ''s1'') (Some ''openai'') None) world0)) = []"
  using C3_openai_credential_gate
    [of "request_with (Some ''hello'') (Some ''s1'') (Some ''openai'') None"
        "env_with Rejects" world0]
  by (simp add: request_with_def env_with_def config_apiKey_def world0_def)

text \<open>
  C3 as stated fails. With no key anywhere, a request whose own descriptor points at a
  chat-completions endpoint is sent there in the messages format, with no
  \<open>Authorization\<close> header, and is served; and \<open>generateText\<close> of the local route with the
  format \<open>openai\<close> posts to \<open>/v1/chat/completions\<close> with no credential and no check for
  one.
\<close>

theorem C3_keyless_chat_dispatch_counterexample:
  "OPENAI_API_KEY (env_with (Resolves (reply_json (JObj [])))) = None \<and>
   isMessagesFormat ''https://api.openai.com/v1/chat/completions'' \<and>
   is_error (fst (POST (env_with (Resolves (reply_json (JObj []))))
          (request_with (Some ''hello'') (Some ''s1'') (Some ''my-openai'')
             (Some \<lparr>api_id = ''my-openai'',
                    endpoint = Some ''https://api.openai.com/v1/chat/completions'',
                    apiKey = None\<rparr>)) world0)) = False \<and>
   fetch_log (snd (POST (env_with (Resolves (reply_json (JObj []))))
          (request_with (Some ''hello'') (Some ''s1'') (Some ''my-openai'')
             (Some \<lparr>api_id = ''my-openai'',
                    endpoint = Some ''https://api.openai.com/v1/chat/completions'',
                    apiKey = None\<rparr>)) world0)) =
     [\<lparr>url = ''https://api.openai.com/v1/chat/completions'',
       http_method = ''POST'',
       headers = [(''Content-Type'', ''application/json'')],
       body = Some (JSON_stringify (JObj
         [(''model'', JStr ''default''),
          (''temperature'', JNum ''0.7''),
          (''max_tokens'', JNum ''1000''),
          (''messages'', user_messages
             (enhance
                (request_with (Some ''hello'') (Some ''s1'') (Some ''my-openai'')
                   (Some \<lparr>api_id = ''my-openai'',
                          endpoint = Some ''https://api.openai.com/v1/chat/completions'',
                          apiKey = None\<rparr>))
                ''hello'' [\<lparr>role = User, content = ''hello''\<rparr>]))]))\<rparr>] \<and>
   map url (fetch_log (snd (generateText (env_with (Resolves (reply_json (JObj []))))
          ''http://localhost:1234'' ''hello'' ''openai'' [] [] world0))) =
     [''http://localhost:1234/v1/chat/completions''] \<and>
   map headers (fetch_log (snd (generateText (env_with (Resolves (reply_json (JObj []))))
          ''http://localhost:1234'' ''hello'' ''openai'' [] [] world0))) =
     [[(''Content-Type'', ''application/json'')]]"
  by (simp add: POST_unfold call_custom_def custom_try_def find_apiConfig_def
      custom_response_data_def andThen_def response_json_def opt_index0_def opt_prop_def
      isMessagesFormat_def startsWith_def temperature_field_def max_tokens_field_def
      generateText_def local_request_def spread_def own_property_order_def is_array_index_def
      digits_def local_responseText_def option_or_def)

subsection \<open>Failed generations\<close>


lemma conclude_cases:
  "(\<exists>err. conclude e rq cm mem rr w = (Thrown err, w)) \<or>
   (\<exists>pl. conclude e rq cm mem rr w = (Next pl, saveMessage e cm Assistant (snd rr) w) \<and>
         res_response pl = snd rr \<and> ok (fst rr))"
  by (auto simp: conclude_def Let_def)




subsection \<open>An unknown provider\<close>

lemma fetch_text_fallback:
  "fetch_text e rq w =
     (case net e (length (fetch_log w)) rq of
        Rejects \<Rightarrow> (Thrown FetchFailed, w\<lparr>fetch_log := fetch_log w @ [rq]\<rparr>)
      | Resolves r \<Rightarrow> (Next (r, if ok r then Some (JStr (body_text r)) else None),
                       w\<lparr>fetch_log := fetch_log w @ [rq]\<rparr>))"
  by (simp add: fetch_text_def fetch_def split: fetch_outcome.splits)

lemma find_none: "\<forall>c \<in> set l. api_id c \<noteq> a \<Longrightarrow> find (\<lambda>api. api_id api = a) l = None"
  by (induction l) auto

lemma custom_try_unresolved:
  assumes "\<forall>c \<in> set ((case customApis rq of None \<Rightarrow> [] | Some l \<Rightarrow> l) @
                       (case localModels rq of None \<Rightarrow> [] | Some l \<Rightarrow> l)). api_id c \<noteq> a"
    and "selectedApiConfig rq = None \<or>
         (\<exists>c. selectedApiConfig rq = Some c \<and> \<not> truthy_str (endpoint c))"
  shows "custom_try e rq a ep w = fetch_text e (fallback_request ep) w"
  using assms(2) find_none [OF assms(1)]
  by (auto simp: custom_try_def find_apiConfig_def Let_def)

lemma call_custom_unresolved:
  assumes "\<forall>c \<in> set ((case customApis rq of None \<Rightarrow> [] | Some l \<Rightarrow> l) @
                       (case localModels rq of None \<Rightarrow> [] | Some l \<Rightarrow> l)). api_id c \<noteq> a"
    and "selectedApiConfig rq = None \<or>
         (\<exists>c. selectedApiConfig rq = Some c \<and> \<not> truthy_str (endpoint c))"
  shows "call_custom e rq a ep w =
     (case net e (length (fetch_log w)) (fallback_request ep) of
        Resolves r \<Rightarrow>
          (Next (r, if ok r then Some (JStr (body_text r)) else None),
           w\<lparr>fetch_log := fetch_log w @ [fallback_request ep]\<rparr>)
      | Rejects \<Rightarrow>
          (case net e (Suc (length (fetch_log w))) (fallback_request ep) of
             Resolves r \<Rightarrow>
               (Next (r, if ok r then Some (JStr (body_text r)) else None),
                w\<lparr>fetch_log := fetch_log w @ [fallback_request ep, fallback_request ep]\<rparr>)
           | Rejects \<Rightarrow>
               (Thrown FetchFailed,
                w\<lparr>fetch_log := fetch_log w @ [fallback_request ep, fallback_request ep]\<rparr>)))"
  by (simp add: call_custom_def custom_try_unresolved [OF assms] fetch_text_fallback
      split: fetch_outcome.splits)

text \<open>
  C2, as the code has it. Take a request with a prompt whose \<open>selectedApi\<close> is a non-empty
  id that is none of the built-in ones and the id of no entry of \<open>customApis\<close> and
  \<open>localModels\<close>, and whose own descriptor \<open>selectedApiConfig\<close> is absent or has no endpoint.
  Then every \<^verbatim>\<open>fetch\<close> the handler makes is the plain GET of the Pollinations URL for the
  enhanced prompt, and it makes at least one. The reply is the 200, or the 500 of a
  rejected \<^verbatim>\<open>fetch\<close>, or the 500 "API error" of a non-success answer of Pollinations; and
  when Pollinations answers the first \<^verbatim>\<open>fetch\<close> with success, the reply is a 200 carrying
  the text of that answer.
\<close>

theorem C2_unknown_provider_falls_back:
  assumes "prompt rq = Some p" and "p \<noteq> []"
    and "selectedApi rq = Some a" and "a \<noteq> []"
    and "a \<notin> {''openai'', ''mistral'', ''claude'', ''pollinations''}"
    and "\<forall>c \<in> set ((case customApis rq of None \<Rightarrow> [] | Some l \<Rightarrow> l) @
                       (case localModels rq of None \<Rightarrow> [] | Some l \<Rightarrow> l)). api_id c \<noteq> a"
    and "selectedApiConfig rq = None \<or>
         (\<exists>c. selectedApiConfig rq = Some c \<and> \<not> truthy_str (endpoint c))"
    and "remember e rq p w = ((cm, mem), w1)"
  shows "take (length (fetch_log w)) (fetch_log (snd (POST e rq w))) = fetch_log w \<and>
         set (drop (length (fetch_log w)) (fetch_log (snd (POST e rq w)))) =
           {fallback_request (enhance rq p mem)} \<and>
         ((\<exists>payload. fst (POST e rq w) = Success payload) \<or>
          fst (POST e rq w) = ServerError FetchFailed \<or>
          (\<exists>msg. fst (POST e rq w) = ServerError (Error msg))) \<and>
         (\<forall>r. net e (length (fetch_log w)) (fallback_request (enhance rq p mem)) = Resolves r \<and>
               ok r \<longrightarrow>
            (\<exists>payload. fst (POST e rq w) = Success payload \<and>
                        res_response payload = Some (JStr (body_text r))))"
proof -
  let ?ep = "enhance rq p mem"
  have l1: "fetch_log w1 = fetch_log w"
    using remember_fetch_log [of e rq p w] assms(8) by simp
  have d: "dispatch e rq ?ep w1 = call_custom e rq a ?ep w1"
    using assms(3,4,5) by (simp add: dispatch_def str_or_def)
  note cc = call_custom_unresolved [OF assms(6,7), of e ?ep w1]
  have sv: "fetch_log (saveMessage e cm Assistant x w') = fetch_log w'" for x w'
    by (simp add: saveMessage_def db_create_def Let_def split: option.splits json.splits)
  show ?thesis
    using assms(1,2,8) d cc l1
    by (auto simp: POST_def str_or_def conclude_def Let_def sv
        split: fetch_outcome.splits)
qed

theorem C2_unknown_provider_falls_back_witness:
  "set (fetch_log (snd (POST (env_with (Resolves (reply_ok ''hi'' None)))
          (request_with (Some ''hello'') (Some ''s1'') (Some ''my-api'') None) world0))) =
     {fallback_request
        (enhance (request_with (Some ''hello'') (Some ''s1'') (Some ''my-api'') None)
           ''hello'' [\<lparr>role = User, content = ''hello''\<rparr>])} \<and>
   (\<exists>payload. fst (POST (env_with (Resolves (reply_ok ''hi'' None)))
          (request_with (Some ''hello'') (Some ''s1'') (Some ''my-api'') None) world0) =
        Success payload \<and>
      res_response payload = Some (JStr ''hi''))"
proof -
  let ?e = "env_with (Resolves (reply_ok ''hi'' None))"
  let ?rq = "request_with (Some ''hello'') (Some ''s1'') (Some ''my-api'') None"
  have r: "remember ?e ?rq ''hello'' world0 =
      ((\<lparr>oid = 0, sessionId = ''s1''\<rparr>, [\<lparr>role = User, content = ''hello''\<rparr>]),
       \<lparr>currentMemory = Some \<lparr>oid = 0, sessionId = ''s1''\<rparr>,
        chatMemory_table = [\<lparr>row_sessionId = ''s1'', row_role = User, row_content = ''hello''\<rparr>],
        db_calls = 2, fetch_log = [], instances = 1\<rparr>)"
    by (simp add: POST_unfold)
  have n: "net ?e (length (fetch_log world0))
             (fallback_request (enhance ?rq ''hello'' [\<lparr>role = User, content = ''hello''\<rparr>])) =
           Resolves (reply_ok ''hi'' None) \<and> ok (reply_ok ''hi'' None)"
    by (simp add: env_with_def reply_ok_def ok_def)
  have "prompt ?rq = Some ''hello''" "''hello'' \<noteq> []" "selectedApi ?rq = Some ''my-api''"
    "''my-api'' \<noteq> []" "''my-api'' \<notin> {''openai'', ''mistral'', ''claude'', ''pollinations''}"
    "\<forall>c \<in> set ((case customApis ?rq of None \<Rightarrow> [] | Some l \<Rightarrow> l) @
                  (case localModels ?rq of None \<Rightarrow> [] | Some l \<Rightarrow> l)). api_id c \<noteq> ''my-api''"
    "selectedApiConfig ?rq = None \<or>
         (\<exists>c. selectedApiConfig ?rq = Some c \<and> \<not> truthy_str (endpoint c))"
    by (simp_all add: request_with_def)
  from C2_unknown_provider_falls_back [OF this r] n show ?thesis
    by (simp add: world0_def reply_ok_def)
qed

text \<open>
  C2 as stated fails: \<open>my-api\<close> is no built-in id and the lists of custom and local entries
  are empty, so it is found in no catalog; but the request brings a descriptor with an
  endpoint as \<open>selectedApiConfig\<close>, and the one \<^verbatim>\<open>fetch\<close> goes to that endpoint, not to
  Pollinations.
\<close>

theorem C2_selectedApiConfig_counterexample:
  "map url (fetch_log (snd (POST (env_with (Resolves (reply_json (JObj []))))
          (request_with (Some ''hello'') (Some ''s1'') (Some ''my-api'')
             (Some \<lparr>api_id = ''my-api'', endpoint = Some ''http://localhost:9/gen'',
                    apiKey = None\<rparr>))
          world0))) = [''http://localhost:9/gen'']"
  by (simp add: POST_unfold call_custom_def custom_try_def find_apiConfig_def
      custom_response_data_def andThen_def response_json_def opt_index0_def opt_prop_def)

subsection \<open>Reading the text out of a successful answer\<close>

lemma andThen_Inr [simp]: "andThen (Inr x) f = f x"
  by (simp add: andThen_def)

lemma andThen_Inl [simp]: "andThen (Inl x) f = Inl x"
  by (simp add: andThen_def)

lemma at_path_None: "at_path None ps = None"
proof (cases ps)
  case (Cons s ps')
  then show ?thesis by (cases s) simp_all
qed simp

lemma opt_prop_at_path: "opt_prop v k = Inr (at_path v [Key k])"
  by (cases "(v, k)" rule: get_prop.cases) (simp_all add: opt_prop_def)

lemma opt_index0_at_path: "opt_index0 v = Inr (at_path v [Index0])"
  by (cases v rule: get_index0.cases) (simp_all add: opt_index0_def)

lemma get_prop_at_path:
  "data \<noteq> JNull \<Longrightarrow> get_prop (Some data) k = Inr (at_path (Some data) [Key k])"
  by (cases data) simp_all

lemma at_path_Cons2: "at_path v (s # p # ps) = at_path (at_path v [s]) (p # ps)"
  by (cases s) (simp_all add: at_path_None split: sum.splits)

text \<open>
  C6, as the code has it. For every payload but \<open>null\<close>, the custom-API branch of the text
  route takes the first present (truthy) of \<open>choices[0].message.content\<close>, \<open>content\<close> and
  \<open>response\<close>, and else the payload serialised by \<^verbatim>\<open>JSON.stringify\<close>; the \<open>custom\<close> format
  of the local route takes the first present of \<open>response\<close>, \<open>text\<close> and \<open>content\<close>, and else
  the serialised payload. Neither throws.
\<close>

theorem C6_custom_extraction_order:
  "data \<noteq> JNull \<Longrightarrow>
     custom_response_data data =
       Inr (first_present
              [at_path (Some data) [Key ''choices'', Index0, Key ''message'', Key ''content''],
               at_path (Some data) [Key ''content''],
               at_path (Some data) [Key ''response'']]
              (Some (JStr (JSON_stringify data)))) \<and>
     local_responseText ''custom'' data =
       Inr (first_present
              [at_path (Some data) [Key ''response''],
               at_path (Some data) [Key ''text''],
               at_path (Some data) [Key ''content'']]
              (Some (JStr (JSON_stringify data))))"
proof -
  assume d: "data \<noteq> JNull"
  have p: "at_path (at_path (at_path (at_path (Some data) [Key ''choices'']) [Index0])
                      [Key ''message'']) [Key ''content''] =
           at_path (Some data) [Key ''choices'', Index0, Key ''message'', Key ''content'']"
    by (simp only: at_path_Cons2)
  have "custom_response_data data =
       Inr (first_present
              [at_path (Some data) [Key ''choices'', Index0, Key ''message'', Key ''content''],
               at_path (Some data) [Key ''content''],
               at_path (Some data) [Key ''response'']]
              (Some (JStr (JSON_stringify data))))"
    unfolding custom_response_data_def
    by (simp only: get_prop_at_path [OF d] opt_index0_at_path opt_prop_at_path andThen_Inr p
        first_present.simps if_distrib [of Inr] cong: if_cong)
  moreover have "local_responseText ''custom'' data =
       Inr (first_present
              [at_path (Some data) [Key ''response''],
               at_path (Some data) [Key ''text''],
               at_path (Some data) [Key ''content'']]
              (Some (JStr (JSON_stringify data))))"
    by (simp add: local_responseText_def get_prop_at_path [OF d] del: at_path.simps)
  ultimately show ?thesis
    by simp
qed

text \<open>
  The empty object yields its serialisation \<open>{}\<close> on both routes; on the text route
  \<open>choices[0].message.content\<close> wins over \<open>content\<close>, and \<open>content\<close> over \<open>response\<close>.
\<close>

theorem C6_custom_extraction_order_witness:
  "custom_response_data (JObj []) = Inr (Some (JStr ''{}'')) \<and>
   local_responseText ''custom'' (JObj []) = Inr (Some (JStr ''{}'')) \<and>
   custom_response_data
     (JObj [(''choices'', JArr [JObj [(''message'', JObj [(''content'', JStr ''hi'')])]]),
            (''content'', JStr ''a''), (''response'', JStr ''b'')]) = Inr (Some (JStr ''hi'')) \<and>
   custom_response_data (JObj [(''response'', JStr ''b''), (''content'', JStr ''a'')]) =
     Inr (Some (JStr ''a''))"
  using C6_custom_extraction_order [of "JObj []"]
    C6_custom_extraction_order
      [of "JObj [(''choices'', JArr [JObj [(''message'', JObj [(''content'', JStr ''hi'')])]]),
                 (''content'', JStr ''a''), (''response'', JStr ''b'')]"]
    C6_custom_extraction_order [of "JObj [(''response'', JStr ''b''), (''content'', JStr ''a'')]"]
  by simp

text \<open>
  C6 as stated fails on the local route: for the payload with \<open>content\<close> "a" and
  \<open>response\<close> "b", \<open>generateText\<close> with the \<open>custom\<close> format answers "b", where the order of
  the claim (\<open>content\<close> before \<open>response\<close>) gives "a".
\<close>

theorem C6_local_custom_counterexample:
  "fst (generateText
          (env_with (Resolves (reply_json
             (JObj [(''content'', JStr ''a''), (''response'', JStr ''b'')]))))
          ''http://localhost:5000'' ''hello'' ''custom'' [] [] world0) =
     Next \<lparr>loc_response = Some (JStr ''b''), loc_model = JStr ''unknown'',
           loc_format = ''custom'', loc_usage = JObj []\<rparr> \<and>
   first_present
     [at_path (Some (JObj [(''content'', JStr ''a''), (''response'', JStr ''b'')]))
        [Key ''choices'', Index0, Key ''message'', Key ''content''],
      at_path (Some (JObj [(''content'', JStr ''a''), (''response'', JStr ''b'')]))
        [Key ''content''],
      at_path (Some (JObj [(''content'', JStr ''a''), (''response'', JStr ''b'')]))
        [Key ''response'']]
     (Some (JStr (JSON_stringify (JObj [(''content'', JStr ''a''), (''response'', JStr ''b'')])))) =
     Some (JStr ''a'')"
  by (simp add: generateText_def local_request_def spread_def fetch_def env_with_def reply_ok_def
      reply_json_def ok_def response_json_def local_responseText_def option_or_def world0_def)

text \<open>
  C7 does not hold of the code. The \<open>openai\<close> branch reads \<^verbatim>\<open>data.choices[0]\<close> with no
  \<^verbatim>\<open>?.\<close> after \<open>choices\<close>: on the successful answer \<open>{}\<close> the read throws a TypeError, the
  outer \<^verbatim>\<open>catch\<close> turns it into the 500 reply, and no assistant turn is saved. The sibling
  reads degrade as the claim says: the custom branch yields the serialised payload, the
  \<open>claude\<close> branch its default text.
\<close>

theorem C7_openai_empty_object_throws:
  "fst (POST (env_with (Resolves (reply_json (JObj []))))
          (request_with (Some ''hello'') (Some ''s1'') (Some ''openai'')
             (Some \<lparr>api_id = ''openai'',
                    endpoint = Some ''https://api.openai.com/v1/chat/completions'',
                    apiKey = Some ''sk-test''\<rparr>)) world0) = ServerError TypeError \<and>
   chatMemory_table (snd (POST (env_with (Resolves (reply_json (JObj []))))
          (request_with (Some ''hello'') (Some ''s1'') (Some ''openai'')
             (Some \<lparr>api_id = ''openai'',
                    endpoint = Some ''https://api.openai.com/v1/chat/completions'',
                    apiKey = Some ''sk-test''\<rparr>)) world0)) =
     [\<lparr>row_sessionId = ''s1'', row_role = User, row_content = ''hello''\<rparr>] \<and>
   map url (fetch_log (snd (POST (env_with (Resolves (reply_json (JObj []))))
          (request_with (Some ''hello'') (Some ''s1'') (Some ''openai'')
             (Some \<lparr>api_id = ''openai'',
                    endpoint = Some ''https://api.openai.com/v1/chat/completions'',
                    apiKey = Some ''sk-test''\<rparr>)) world0))) =
     [''https://api.openai.com/v1/chat/completions''] \<and>
   choices0_content (JObj []) ''No response from OpenAI'' = Inl TypeError \<and>
   custom_response_data (JObj []) = Inr (Some (JStr ''{}'')) \<and>
   content0_text (JObj []) = Inr (Some (JStr ''No response from Claude''))"
  by (simp add: POST_unfold call_openai_def config_apiKey_def choices0_content_def
      response_json_def custom_response_data_def content0_text_def opt_index0_def opt_prop_def
      js_or_def)

subsection \<open>Two calls on one session\<close>

lemma getChatMemory_given_id:
  "s \<noteq> [] \<Longrightarrow> sessionId (fst (getChatMemory e (Some s) w)) = s"
  by (auto simp: getChatMemory_def new_ChatMemory_def getSessionId_def str_or_def
      split: option.splits)

lemma getChatMemory_keeps:
  "chatMemory_table (snd (getChatMemory e sid w)) = chatMemory_table w \<and>
   db_calls (snd (getChatMemory e sid w)) = db_calls w"
  by (auto simp: getChatMemory_def new_ChatMemory_def split: option.splits)

lemma remember_explicit:
  assumes "db_up e (db_calls w)" and "db_up e (Suc (db_calls w))"
    and "body_sessionId rq = Some sid" and "sid \<noteq> []"
  shows "remember e rq p w = ((cm, mem), w1) \<Longrightarrow>
           sessionId cm = sid \<and>
           mem = take 10 (history w sid @ [\<lparr>role = User, content = p\<rparr>]) \<and>
           chatMemory_table w1 = chatMemory_table w @
             [\<lparr>row_sessionId = sid, row_role = User, row_content = p\<rparr>] \<and>
           db_calls w1 = Suc (Suc (db_calls w))"
proof -
  assume r: "remember e rq p w = ((cm, mem), w1)"
  obtain c w0 where g: "getChatMemory e (Some sid) w = (c, w0)"
    by (metis surj_pair)
  have c: "sessionId c = sid"
    using getChatMemory_given_id [OF assms(4), of e w] g by simp
  have k: "chatMemory_table w0 = chatMemory_table w" "db_calls w0 = db_calls w"
    using getChatMemory_keeps [of e "Some sid" w] g by simp_all
  have "sessionId cm = sid \<and>
        mem = map to_message (take 10 (filter (\<lambda>r. row_sessionId r = sid)
                (chatMemory_table w @
                 [\<lparr>row_sessionId = sid, row_role = User, row_content = p\<rparr>]))) \<and>
        chatMemory_table w1 = chatMemory_table w @
             [\<lparr>row_sessionId = sid, row_role = User, row_content = p\<rparr>] \<and>
        db_calls w1 = Suc (Suc (db_calls w))"
    using r assms(1,2,3) g c k
    by (auto simp: remember_def saveMessage_def db_create_def getMemory_def db_findMany_def Let_def
        simp del: take_append)
  moreover have
    "map to_message (take 10 (filter (\<lambda>r. row_sessionId r = sid) (chatMemory_table w) @
                [\<lparr>row_sessionId = sid, row_role = User, row_content = p\<rparr>])) =
     take 10 (history w sid @
                [to_message \<lparr>row_sessionId = sid, row_role = User, row_content = p\<rparr>])"
    unfolding history_def by (simp add: take_map [symmetric] del: take_append)
  ultimately show ?thesis
    by (simp add: to_message_def del: take_append)
qed

lemma POST_success_table:
  assumes up: "\<forall>k. db_up e k"
    and "prompt rq = Some p" and "p \<noteq> []"
    and "body_sessionId rq = Some sid" and "sid \<noteq> []"
    and "POST e rq w = (Success payload, w')"
    and "res_response payload = Some (JStr r)"
  shows "chatMemory_table w' = chatMemory_table w @
           [\<lparr>row_sessionId = sid, row_role = User, row_content = p\<rparr>,
            \<lparr>row_sessionId = sid, row_role = Assistant, row_content = r\<rparr>]"
proof -
  obtain cm mem w1 where r: "remember e rq p w = ((cm, mem), w1)"
    by (metis surj_pair)
  have e1: "sessionId cm = sid"
    "chatMemory_table w1 =
       chatMemory_table w @ [\<lparr>row_sessionId = sid, row_role = User, row_content = p\<rparr>]"
    using remember_explicit [OF _ _ assms(4,5) r] up by simp_all
  obtain fl w2 where d: "dispatch e rq (enhance rq p mem) w1 = (fl, w2)"
    by (metis surj_pair)
  have t2: "chatMemory_table w2 = chatMemory_table w1"
    using dispatch_table [of e rq "enhance rq p mem" w1] d by simp
  show ?thesis
  proof (cases fl)
    case (Next rr)
    from conclude_cases [of e rq cm mem rr w2] show ?thesis
    proof
      assume "\<exists>err. conclude e rq cm mem rr w2 = (Thrown err, w2)"
      then show ?thesis
        using assms(2,3,6) r d Next by (auto simp: POST_def str_or_def)
    next
      assume "\<exists>pl. conclude e rq cm mem rr w2 =
                    (Next pl, saveMessage e cm Assistant (snd rr) w2) \<and>
                  res_response pl = snd rr \<and> ok (fst rr)"
      then obtain pl where
        c: "conclude e rq cm mem rr w2 = (Next pl, saveMessage e cm Assistant (snd rr) w2)"
        and pr: "res_response pl = snd rr"
        by blast
      have "payload = pl \<and> w' = saveMessage e cm Assistant (snd rr) w2"
        using assms(2,3,6) r d Next c by (auto simp: POST_def str_or_def)
      then show ?thesis
        using pr assms(7) e1 t2 up by (simp add: saveMessage_def db_create_def Let_def)
    qed
  qed (use assms(2,3,6) r d in \<open>auto simp: POST_def str_or_def\<close>)
qed

lemma saveMessage_fetch_log: "fetch_log (saveMessage e cm r x w) = fetch_log w"
  by (simp add: saveMessage_def db_create_def Let_def split: option.splits json.splits)

lemma POST_fetch_log:
  assumes "prompt rq = Some p" and "p \<noteq> []" and "remember e rq p w = ((cm, mem), w1)"
  shows "fetch_log (snd (POST e rq w)) = fetch_log (snd (dispatch e rq (enhance rq p mem) w1))"
proof -
  obtain fl w2 where d: "dispatch e rq (enhance rq p mem) w1 = (fl, w2)"
    by (metis surj_pair)
  show ?thesis
  proof (cases fl)
    case (Next rr)
    from conclude_cases [of e rq cm mem rr w2] show ?thesis
      using assms d Next by (auto simp: POST_def str_or_def saveMessage_fetch_log)
  qed (use assms d in \<open>auto simp: POST_def str_or_def\<close>)
qed

text \<open>
  C8 does not hold of the code. The handler saves the user turn of the request
  (line 82) before it reads the memory (line 85). So, the store answering, when a first
  request with prompt \<open>p1\<close> on a session \<open>sid\<close> without turns was served with the text
  \<open>r1\<close>, a second request on \<open>sid\<close> with prompt \<open>p2\<close> reads three turns, its own among them,
  and what it hands to the provider is the block labelled "Previous Conversation Context"
  with the three lines \<open>USER: p1\<close>, \<open>ASSISTANT: r1\<close>, \<open>USER: p2\<close>, followed by \<open>p2\<close> once more
  as "Current user message:" (then the attached files and the closing instructions).
  For the provider \<open>pollinations\<close> and no files, the one \<^verbatim>\<open>fetch\<close> of the second request is
  the GET of the Pollinations URL of exactly that text.
\<close>

theorem C8_second_call_injects_three_turns:
  assumes "\<forall>k. db_up e k"
    and "body_sessionId rq1 = Some sid" and "body_sessionId rq2 = Some sid" and "sid \<noteq> []"
    and "prompt rq1 = Some p1" and "p1 \<noteq> []"
    and "prompt rq2 = Some p2" and "p2 \<noteq> []"
    and "history w sid = []"
    and "POST e rq1 w = (Success payload, w1)" and "res_response payload = Some (JStr r1)"
  shows "let injected =
               ''[Previous Conversation Context]'' @ [NL] @
               ''USER: '' @ p1 @ [NL] @ ''ASSISTANT: '' @ r1 @ [NL] @ ''USER: '' @ p2 @ [NL] @
               ''[End of Context]'' @ [NL, NL] @
               ''Current user message: '' @ p2 @ [NL, NL] @ consistency_instruction
         in snd (fst (remember e rq2 p2 w1)) =
              [\<lparr>role = User, content = p1\<rparr>, \<lparr>role = Assistant, content = r1\<rparr>,
               \<lparr>role = User, content = p2\<rparr>] \<and>
            fetch_log (snd (POST e rq2 w1)) =
              fetch_log (snd (dispatch e rq2
                 (with_files (files rq2) injected @
                  (if selectedApi rq2 = Some ''pollinations'' then [] else structure_instruction))
                 (snd (remember e rq2 p2 w1)))) \<and>
            (selectedApi rq2 = Some ''pollinations'' \<and> files rq2 = None \<longrightarrow>
               fetch_log (snd (POST e rq2 w1)) = fetch_log w1 @
                 [\<lparr>url = (if \<not> (URLSearchParams_toString (pollinations_params e rq2) = [])
                          then pollinations_apiUrl injected @ ''?'' @
                               URLSearchParams_toString (pollinations_params e rq2)
                          else pollinations_apiUrl injected),
                   http_method = ''GET'',
                   headers = [(''User-Agent'', ''AI-Chat-Studio/1.0'')],
                   body = None\<rparr>])"
proof -
  define injected where "injected =
       ''[Previous Conversation Context]'' @ [NL] @
       ''USER: '' @ p1 @ [NL] @ ''ASSISTANT: '' @ r1 @ [NL] @ ''USER: '' @ p2 @ [NL] @
       ''[End of Context]'' @ [NL, NL] @
       ''Current user message: '' @ p2 @ [NL, NL] @ consistency_instruction"
  have t1: "chatMemory_table w1 = chatMemory_table w @
           [\<lparr>row_sessionId = sid, row_role = User, row_content = p1\<rparr>,
            \<lparr>row_sessionId = sid, row_role = Assistant, row_content = r1\<rparr>]"
    using POST_success_table [OF assms(1) assms(5,6) assms(2) assms(4) assms(10,11)] .
  have h1: "history w1 sid =
              [\<lparr>role = User, content = p1\<rparr>, \<lparr>role = Assistant, content = r1\<rparr>]"
    using assms(9) t1 by (simp add: history_def to_message_def)
  obtain cm mem w2 where r: "remember e rq2 p2 w1 = ((cm, mem), w2)"
    by (metis surj_pair)
  have "mem = take 10 (history w1 sid @ [\<lparr>role = User, content = p2\<rparr>])"
    using remember_explicit [OF _ _ assms(3,4) r] assms(1) by simp
  with h1 have m: "mem = [\<lparr>role = User, content = p1\<rparr>, \<lparr>role = Assistant, content = r1\<rparr>,
            \<lparr>role = User, content = p2\<rparr>]"
    by simp
  have en: "enhance rq2 p2 mem =
              with_files (files rq2) injected @
              (if selectedApi rq2 = Some ''pollinations'' then [] else structure_instruction)"
    using m
    by (simp add: enhance_def with_context_def formatMemoryForPrompt_def toUpperCase_role_text
        role_label_def Let_def injected_def)
  have fl: "fetch_log (snd (POST e rq2 w1)) =
              fetch_log (snd (dispatch e rq2 (enhance rq2 p2 mem) w2))"
    using POST_fetch_log [OF assms(7,8) r] .
  have l2: "fetch_log w2 = fetch_log w1"
    using remember_fetch_log [of e rq2 p2 w1] r by simp
  have pol: "selectedApi rq2 = Some ''pollinations'' \<Longrightarrow> files rq2 = None \<Longrightarrow>
      fetch_log (snd (dispatch e rq2 (enhance rq2 p2 mem) w2)) = fetch_log w1 @
              [\<lparr>url = (if \<not> (URLSearchParams_toString (pollinations_params e rq2) = [])
                       then pollinations_apiUrl injected @ ''?'' @
                            URLSearchParams_toString (pollinations_params e rq2)
                       else pollinations_apiUrl injected),
                http_method = ''GET'',
                headers = [(''User-Agent'', ''AI-Chat-Studio/1.0'')],
                body = None\<rparr>]"
    using en l2
    by (simp add: dispatch_def call_pollinations_def fetch_text_def fetch_def with_files_def Let_def
        split: fetch_outcome.splits)
  have "snd (fst (remember e rq2 p2 w1)) =
              [\<lparr>role = User, content = p1\<rparr>, \<lparr>role = Assistant, content = r1\<rparr>,
               \<lparr>role = User, content = p2\<rparr>] \<and>
            fetch_log (snd (POST e rq2 w1)) =
              fetch_log (snd (dispatch e rq2
                 (with_files (files rq2) injected @
                  (if selectedApi rq2 = Some ''pollinations'' then [] else structure_instruction))
                 (snd (remember e rq2 p2 w1)))) \<and>
            (selectedApi rq2 = Some ''pollinations'' \<and> files rq2 = None \<longrightarrow>
               fetch_log (snd (POST e rq2 w1)) = fetch_log w1 @
                 [\<lparr>url = (if \<not> (URLSearchParams_toString (pollinations_params e rq2) = [])
                          then pollinations_apiUrl injected @ ''?'' @
                               URLSearchParams_toString (pollinations_params e rq2)
                          else pollinations_apiUrl injected),
                   http_method = ''GET'',
                   headers = [(''User-Agent'', ''AI-Chat-Studio/1.0'')],
                   body = None\<rparr>])"
    using r m en fl pol by simp
  then show ?thesis
    unfolding injected_def Let_def .
qed

text \<open>
  The prompts "hello" and "world" on the session \<open>s1\<close>, each answered "hi" by Pollinations:
  the two URLs fetched. Already the first request injects a "previous" context, which
  holds nothing but its own message.
\<close>

theorem C8_second_call_injects_three_turns_witness:
  "map url (fetch_log (snd (POST (env_with (Resolves (reply_ok ''hi'' None)))
       (request_with (Some ''world'') (Some ''s1'') (Some ''pollinations'') None)
       (snd (POST (env_with (Resolves (reply_ok ''hi'' None)))
          (request_with (Some ''hello'') (Some ''s1'') (Some ''pollinations'') None) world0))))) =
   [pollinations_apiUrl
      (''[Previous Conversation Context]'' @ [NL] @ ''USER: hello'' @ [NL] @
       ''[End of Context]'' @ [NL, NL] @
       ''Current user message: hello'' @ [NL, NL] @ consistency_instruction),
    pollinations_apiUrl
      (''[Previous Conversation Context]'' @ [NL] @ ''USER: hello'' @ [NL] @
       ''ASSISTANT: hi'' @ [NL] @ ''USER: world'' @ [NL] @ ''[End of Context]'' @ [NL, NL] @
       ''Current user message: world'' @ [NL, NL] @ consistency_instruction)]"
proof -
  let ?e = "env_with (Resolves (reply_ok ''hi'' None))"
  let ?rq1 = "request_with (Some ''hello'') (Some ''s1'') (Some ''pollinations'') None"
  let ?rq2 = "request_with (Some ''world'') (Some ''s1'') (Some ''pollinations'') None"
  have "\<exists>payload. POST ?e ?rq1 world0 = (Success payload, snd (POST ?e ?rq1 world0)) \<and>
      res_response payload = Some (JStr ''hi'')"
    by (simp add: POST_unfold call_pollinations_def)
  then obtain payload where
    p: "POST ?e ?rq1 world0 = (Success payload, snd (POST ?e ?rq1 world0))"
       "res_response payload = Some (JStr ''hi'')"
    by blast
  have a: "\<forall>k. db_up ?e k" "body_sessionId ?rq1 = Some ''s1''" "body_sessionId ?rq2 = Some ''s1''"
    "''s1'' \<noteq> []" "prompt ?rq1 = Some ''hello''" "''hello'' \<noteq> []"
    "prompt ?rq2 = Some ''world''" "''world'' \<noteq> []" "history world0 ''s1'' = []"
    by (simp_all add: env_with_def request_with_def history_def world0_def)
  have f1: "map url (fetch_log (snd (POST ?e ?rq1 world0))) =
     [pollinations_apiUrl
      (''[Previous Conversation Context]'' @ [NL] @ ''USER: hello'' @ [NL] @
       ''[End of Context]'' @ [NL, NL] @
       ''Current user message: hello'' @ [NL, NL] @ consistency_instruction)]"
    by (simp add: POST_unfold call_pollinations_def pollinations_params_def
        URLSearchParams_toString_def formatMemoryForPrompt_def toUpperCase_def lower_letters_def
        upper_letters_def with_context_def with_files_def)
  have s: "selectedApi ?rq2 = Some ''pollinations'' \<and> files ?rq2 = None"
    by (simp add: request_with_def)
  from C8_second_call_injects_three_turns [OF a p, unfolded Let_def,
      THEN conjunct2, THEN conjunct2, rule_format, OF s] f1
  show ?thesis
    by (simp add: pollinations_params_def URLSearchParams_toString_def request_with_def)
qed

end
